theory Spec2Isabelle
  imports Main "HOL-Library.Sublist"
begin

section \<open>JavaScript values and the built-ins the program calls\<close>

text \<open>
  The program is JavaScript. A catalog row is a plain object whose properties hold
  primitive values, so a value is one of the primitives below. Numbers are the
  integer-valued ones (ordinal positions, lengths, precisions); strings are character
  lists, and the case mappings are those of the ASCII letters.

  \<^verbatim>\<open>Num n\<close> stands for the number \<^verbatim>\<open>n\<close> when \<^verbatim>\<open>n\<close> is a safe integer, at most
  \<^verbatim>\<open>2^53 - 1\<close> in absolute value: JavaScript holds such a number exactly and writes it in
  decimal with all its digits. A fraction, a larger number (written from its shortest
  digits that read back, in exponent form from \<^verbatim>\<open>1e21\<close> on), negative zero and the
  non-finite numbers are not values here, and what is said of number text below is said
  of safe integers only.
\<close>

datatype js_value = Undefined | Null | Bool bool | Num int | Str string


text \<open>What \<^verbatim>\<open>throw new Error(msg)\<close> raises, and what a method call on a value without
  that method raises.\<close>

datatype js_error = Error string | TypeError

fun typeof :: "js_value \<Rightarrow> string" where
  "typeof Undefined = ''undefined''"
| "typeof Null = ''object''"
| "typeof (Bool b) = ''boolean''"
| "typeof (Num n) = ''number''"
| "typeof (Str s) = ''string''"

fun truthy :: "js_value \<Rightarrow> bool" where
  "truthy Undefined = False"
| "truthy Null = False"
| "truthy (Bool b) = b"
| "truthy (Num n) = (n \<noteq> 0)"
| "truthy (Str s) = (s \<noteq> [])"

definition js_or :: "js_value \<Rightarrow> js_value \<Rightarrow> js_value" where
  "js_or a b = (if truthy a then a else b)"

definition digitChar :: "nat \<Rightarrow> char" where
  "digitChar d = ''0123456789'' ! d"

function natToString :: "nat \<Rightarrow> string" where
  "natToString n =
     (if n < 10 then [digitChar n] else natToString (n div 10) @ [digitChar (n mod 10)])"
  by pat_completeness auto
termination
  by (relation "measure id") auto

declare natToString.simps [simp del]

definition intToString :: "int \<Rightarrow> string" where
  "intToString i = (if i < 0 then CHR ''-'' # natToString (nat (- i)) else natToString (nat i))"

text \<open>The string conversion of a template literal \<^verbatim>\<open>`${v}`\<close>; the text of a number is that
  of a safe integer.\<close>

fun ToString :: "js_value \<Rightarrow> string" where
  "ToString Undefined = ''undefined''"
| "ToString Null = ''null''"
| "ToString (Bool b) = (if b then ''true'' else ''false'')"
| "ToString (Num n) = intToString n"
| "ToString (Str s) = s"

definition toLowerChar :: "char \<Rightarrow> char" where
  "toLowerChar c =
     (case map_of (zip ''ABCDEFGHIJKLMNOPQRSTUVWXYZ'' ''abcdefghijklmnopqrstuvwxyz'') c of
        Some l \<Rightarrow> l | None \<Rightarrow> c)"

definition toUpperChar :: "char \<Rightarrow> char" where
  "toUpperChar c =
     (case map_of (zip ''abcdefghijklmnopqrstuvwxyz'' ''ABCDEFGHIJKLMNOPQRSTUVWXYZ'') c of
        Some u \<Rightarrow> u | None \<Rightarrow> c)"

definition toLowerCase :: "string \<Rightarrow> string" where
  "toLowerCase s = map toLowerChar s"

definition toUpperCase :: "string \<Rightarrow> string" where
  "toUpperCase s = map toUpperChar s"

text \<open>\<^verbatim>\<open>v.toLowerCase()\<close> on a property value: only a string has the method.\<close>

fun lowerCaseOf :: "js_value \<Rightarrow> js_error + string" where
  "lowerCaseOf (Str s) = Inr (toLowerCase s)"
| "lowerCaseOf v = Inl TypeError"

fun upperCaseOf :: "js_value \<Rightarrow> js_error + string" where
  "upperCaseOf (Str s) = Inr (toUpperCase s)"
| "upperCaseOf v = Inl TypeError"

text \<open>\<^verbatim>\<open>s.includes(needle)\<close>, which is also what an unanchored regular expression made of
  literal characters tests; \<^verbatim>\<open>^lit\<close> tests a prefix.\<close>

fun str_includes :: "string \<Rightarrow> string \<Rightarrow> bool" where
  "str_includes [] needle = (needle = [])"
| "str_includes (c # cs) needle = (prefix needle (c # cs) \<or> str_includes cs needle)"

definition startsWith :: "string \<Rightarrow> string \<Rightarrow> bool" where
  "startsWith s p = prefix p s"

section \<open>Column type helpers (mysql\_schema\_helpers.js)\<close>

text \<open>A column object: the twenty-two fields of class \<^verbatim>\<open>MySQLTableColumn\<close>, each holding
  whatever was assigned to it (\<^verbatim>\<open>undefined\<close> until then).\<close>

record MySQLTableColumn =
  tableCatalog :: js_value
  tableSchema :: js_value
  tableName :: js_value
  columnName :: js_value
  ordinalPosition :: js_value
  columnDefault :: js_value
  isNullable :: js_value
  dataType :: js_value
  characterMaximumLength :: js_value
  characterOctetLength :: js_value
  numericPrecision :: js_value
  numericScale :: js_value
  datetimePrecision :: js_value
  characterSetName :: js_value
  collationName :: js_value
  columnType :: js_value
  columnKey :: js_value
  extra :: js_value
  privileges :: js_value
  columnComment :: js_value
  isGenerated :: js_value
  generationExpression :: js_value

text \<open>\<^verbatim>\<open>new MySQLTableColumn()\<close>: the constructor returns at once without data.\<close>

definition newColumn :: MySQLTableColumn where
  "newColumn = \<lparr> tableCatalog = Undefined, tableSchema = Undefined, tableName = Undefined,
     columnName = Undefined, ordinalPosition = Undefined, columnDefault = Undefined,
     isNullable = Undefined, dataType = Undefined, characterMaximumLength = Undefined,
     characterOctetLength = Undefined, numericPrecision = Undefined, numericScale = Undefined,
     datetimePrecision = Undefined, characterSetName = Undefined, collationName = Undefined,
     columnType = Undefined, columnKey = Undefined, extra = Undefined, privileges = Undefined,
     columnComment = Undefined, isGenerated = Undefined, generationExpression = Undefined \<rparr>"

text \<open>\<^verbatim>\<open>/bigint/\<close> and \<^verbatim>\<open>/integer|int|smallint|tinyint|mediumint|bigint/\<close>.\<close>

definition integerPattern :: "string \<Rightarrow> bool" where
  "integerPattern s \<longleftrightarrow>
     str_includes s ''integer'' \<or> str_includes s ''int'' \<or> str_includes s ''smallint'' \<or>
     str_includes s ''tinyint'' \<or> str_includes s ''mediumint'' \<or> str_includes s ''bigint''"

definition hasIntegerDataType :: "MySQLTableColumn \<Rightarrow> js_error + bool" where
  "hasIntegerDataType column =
     (case lowerCaseOf (dataType column) of
        Inl e \<Rightarrow> Inl e
      | Inr dt \<Rightarrow>
          if str_includes dt ''bigint'' then Inl (Error ''bigint not supported'')
          else Inr (integerPattern dt))"

text \<open>\<^verbatim>\<open>/^is_|_is_|^has_/\<close>.\<close>

definition booleanNamePattern :: "string \<Rightarrow> bool" where
  "booleanNamePattern s \<longleftrightarrow>
     startsWith s ''is_'' \<or> str_includes s ''_is_'' \<or> startsWith s ''has_''"

definition hasBooleanDataType :: "MySQLTableColumn \<Rightarrow> js_error + bool" where
  "hasBooleanDataType column =
     (case lowerCaseOf (dataType column) of
        Inl e \<Rightarrow> Inl e
      | Inr dt \<Rightarrow>
         (case lowerCaseOf (columnType column) of
            Inl e \<Rightarrow> Inl e
          | Inr ct \<Rightarrow>
              if ct = ''tinyint(1)'' then Inr True
              else (case hasIntegerDataType column of
                      Inl e \<Rightarrow> Inl e
                    | Inr True \<Rightarrow>
                        (case lowerCaseOf (columnName column) of
                           Inl e \<Rightarrow> Inl e
                         | Inr cn \<Rightarrow> Inr (booleanNamePattern cn))
                    | Inr False \<Rightarrow> Inr (dt = ''boolean''))))"

text \<open>\<^verbatim>\<open>/float|double|real|decimal/\<close>.\<close>

definition hasFloatDataType :: "MySQLTableColumn \<Rightarrow> js_error + bool" where
  "hasFloatDataType column =
     (case lowerCaseOf (dataType column) of
        Inl e \<Rightarrow> Inl e
      | Inr dt \<Rightarrow> Inr (str_includes dt ''float'' \<or> str_includes dt ''double'' \<or>
                      str_includes dt ''real'' \<or> str_includes dt ''decimal''))"

text \<open>\<^verbatim>\<open>/char|varchar|tinytext|text|mediumtext|longtext/\<close>.\<close>

definition hasStringDataType :: "MySQLTableColumn \<Rightarrow> js_error + bool" where
  "hasStringDataType column =
     (case lowerCaseOf (dataType column) of
        Inl e \<Rightarrow> Inl e
      | Inr dt \<Rightarrow> Inr (str_includes dt ''char'' \<or> str_includes dt ''varchar'' \<or>
                      str_includes dt ''tinytext'' \<or> str_includes dt ''text'' \<or>
                      str_includes dt ''mediumtext'' \<or> str_includes dt ''longtext''))"

text \<open>\<^verbatim>\<open>/date|time|datetime|timestamp/\<close>.\<close>

definition hasDateDataType :: "MySQLTableColumn \<Rightarrow> js_error + bool" where
  "hasDateDataType column =
     (case lowerCaseOf (dataType column) of
        Inl e \<Rightarrow> Inl e
      | Inr dt \<Rightarrow> Inr (str_includes dt ''date'' \<or> str_includes dt ''time'' \<or>
                      str_includes dt ''datetime'' \<or> str_includes dt ''timestamp''))"

definition detectFieldTypeByColumnType :: "MySQLTableColumn \<Rightarrow> js_error + string" where
  "detectFieldTypeByColumnType column =
     (case hasBooleanDataType column of
        Inl e \<Rightarrow> Inl e
      | Inr True \<Rightarrow> Inr ''bit''
      | Inr False \<Rightarrow>
         (case hasIntegerDataType column of
            Inl e \<Rightarrow> Inl e
          | Inr True \<Rightarrow> Inr ''integer''
          | Inr False \<Rightarrow>
             (case hasStringDataType column of
                Inl e \<Rightarrow> Inl e
              | Inr True \<Rightarrow> Inr ''string''
              | Inr False \<Rightarrow>
                 (case hasFloatDataType column of
                    Inl e \<Rightarrow> Inl e
                  | Inr True \<Rightarrow> Inr ''float''
                  | Inr False \<Rightarrow> Inr ''string''))))"

section \<open>Validation of a raw catalog row (assertColumnMetadataRaw)\<close>

text \<open>A plain object is the list of its own properties in enumeration order; the argument
  of the validator may also be something that is not an object.\<close>

type_synonym js_object = "(string \<times> js_value) list"

datatype js_input = Prim js_value | Obj js_object

text \<open>\<^verbatim>\<open>key in obj\<close> and \<^verbatim>\<open>obj[key]\<close>.\<close>

definition hasKey :: "js_object \<Rightarrow> string \<Rightarrow> bool" where
  "hasKey obj key \<longleftrightarrow> key \<in> fst ` set obj"

definition getProp :: "js_object \<Rightarrow> string \<Rightarrow> js_value" where
  "getProp obj key = (case map_of obj key of Some v \<Rightarrow> v | None \<Rightarrow> Undefined)"

definition requiredKeys :: "string list" where
  "requiredKeys = [''TABLE_CATALOG'', ''TABLE_SCHEMA'', ''TABLE_NAME'', ''COLUMN_NAME'',
     ''ORDINAL_POSITION'', ''IS_NULLABLE'', ''DATA_TYPE'', ''COLUMN_TYPE'', ''COLUMN_KEY'',
     ''EXTRA'', ''PRIVILEGES'', ''COLUMN_COMMENT'', ''IS_GENERATED'']"

text \<open>A validator returns \<^verbatim>\<open>true\<close> or the text of a complaint.\<close>

definition expectString :: "js_value \<Rightarrow> js_value" where
  "expectString val =
     (if typeof val = ''string'' then Bool True else Str (''Expected string, got '' @ typeof val))"

definition expectNumber :: "js_value \<Rightarrow> js_value" where
  "expectNumber val =
     (if typeof val = ''number'' then Bool True else Str (''Expected number, got '' @ typeof val))"

definition expectStringOrNull :: "js_value \<Rightarrow> js_value" where
  "expectStringOrNull val =
     (if val = Null \<or> typeof val = ''string'' then Bool True
      else Str (''Expected string or null, got '' @ typeof val))"

definition expectNumberOrNull :: "js_value \<Rightarrow> js_value" where
  "expectNumberOrNull val =
     (if val = Null \<or> typeof val = ''number'' then Bool True
      else Str (''Expected number or null, got '' @ typeof val))"

definition expectIsNullable :: "js_value \<Rightarrow> js_value" where
  \<open>expectIsNullable val =
     (if val = Str ''YES'' \<or> val = Str ''NO'' then Bool True
      else Str (''Expected 'YES' or 'NO', got '' @ ToString val))\<close>

definition expectColumnKey :: "js_value \<Rightarrow> js_value" where
  \<open>expectColumnKey val =
     (if val \<in> set [Str ''PRI'', Str ''UNI'', Str ''MUL'', Str ''''] then Bool True
      else Str (''Expected 'PRI', 'UNI', 'MUL' or empty string, got '' @ ToString val))\<close>

definition expectIsGenerated :: "js_value \<Rightarrow> js_value" where
  \<open>expectIsGenerated val =
     (if val = Str ''NEVER'' \<or> val = Str ''ALWAYS'' \<or> typeof val = ''string'' then Bool True
      else Str (''Expected 'NEVER', 'ALWAYS' or string, got '' @ ToString val))\<close>

definition validators :: "(string \<times> (js_value \<Rightarrow> js_value)) list" where
  "validators =
    [(''TABLE_CATALOG'', expectString),
     (''TABLE_SCHEMA'', expectString),
     (''TABLE_NAME'', expectString),
     (''COLUMN_NAME'', expectString),
     (''ORDINAL_POSITION'', expectNumber),
     (''COLUMN_DEFAULT'', expectStringOrNull),
     (''IS_NULLABLE'', expectIsNullable),
     (''DATA_TYPE'', expectString),
     (''CHARACTER_MAXIMUM_LENGTH'', expectNumberOrNull),
     (''CHARACTER_OCTET_LENGTH'', expectNumberOrNull),
     (''NUMERIC_PRECISION'', expectNumberOrNull),
     (''NUMERIC_SCALE'', expectNumberOrNull),
     (''DATETIME_PRECISION'', expectNumberOrNull),
     (''CHARACTER_SET_NAME'', expectStringOrNull),
     (''COLLATION_NAME'', expectStringOrNull),
     (''COLUMN_TYPE'', expectString),
     (''COLUMN_KEY'', expectColumnKey),
     (''EXTRA'', expectString),
     (''PRIVILEGES'', expectString),
     (''COLUMN_COMMENT'', expectString),
     (''IS_GENERATED'', expectIsGenerated),
     (''GENERATION_EXPRESSION'', expectStringOrNull)]"

text \<open>The two loops of the validator.\<close>

fun checkRequired :: "string list \<Rightarrow> js_object \<Rightarrow> js_error + unit" where
  "checkRequired [] obj = Inr ()"
| "checkRequired (key # keys) obj =
     (if \<not> hasKey obj key then Inl (Error (''Missing required field: '' @ key))
      else checkRequired keys obj)"

fun runValidators :: "(string \<times> (js_value \<Rightarrow> js_value)) list \<Rightarrow> js_object \<Rightarrow> js_error + unit" where
  "runValidators [] obj = Inr ()"
| "runValidators ((key, validator) # rest) obj =
     (let validationResult = validator (getProp obj key)
      in if typeof validationResult = ''string''
         then Inl (Error (''Invalid '' @ key @ '': '' @ ToString validationResult))
         else runValidators rest obj)"

fun assertColumnMetadataRaw :: "js_input \<Rightarrow> js_error + unit" where
  "assertColumnMetadataRaw (Prim v) = Inl (Error ''Input must be a non-null object'')"
| "assertColumnMetadataRaw (Obj obj) =
     (case checkRequired requiredKeys obj of
        Inl e \<Rightarrow> Inl e
      | Inr u \<Rightarrow> runValidators validators obj)"

section \<open>Importing a raw row into a column object\<close>

text \<open>\<^verbatim>\<open>importFromRawData\<close> changes the column it is called on: the result is the outcome of
  the call together with the column afterwards.\<close>

fun importFromRawData :: "js_input \<Rightarrow> MySQLTableColumn \<Rightarrow> (js_error + unit) \<times> MySQLTableColumn" where
  "importFromRawData rawMetadata this =
     (case assertColumnMetadataRaw rawMetadata of
        Inl e \<Rightarrow> (Inl e, this)
      | Inr u \<Rightarrow>
         (case rawMetadata of
            Prim v \<Rightarrow> (Inl TypeError, this)
          | Obj raw \<Rightarrow>
             (Inr (),
              this\<lparr> tableCatalog := getProp raw ''TABLE_CATALOG'',
                    tableSchema := getProp raw ''TABLE_SCHEMA'',
                    tableName := getProp raw ''TABLE_NAME'',
                    columnName := getProp raw ''COLUMN_NAME'',
                    ordinalPosition := getProp raw ''ORDINAL_POSITION'',
                    columnDefault := getProp raw ''COLUMN_DEFAULT'',
                    isNullable := getProp raw ''IS_NULLABLE'',
                    dataType := getProp raw ''DATA_TYPE'',
                    characterMaximumLength := getProp raw ''CHARACTER_MAXIMUM_LENGTH'',
                    characterOctetLength := getProp raw ''CHARACTER_OCTET_LENGTH'',
                    numericPrecision := getProp raw ''NUMERIC_PRECISION'',
                    numericScale := getProp raw ''NUMERIC_SCALE'',
                    datetimePrecision := getProp raw ''DATETIME_PRECISION'',
                    characterSetName := getProp raw ''CHARACTER_SET_NAME'',
                    collationName := getProp raw ''COLLATION_NAME'',
                    columnType := getProp raw ''COLUMN_TYPE'',
                    columnKey := getProp raw ''COLUMN_KEY'',
                    extra := getProp raw ''EXTRA'',
                    privileges := getProp raw ''PRIVILEGES'',
                    columnComment := getProp raw ''COLUMN_COMMENT'',
                    isGenerated := getProp raw ''IS_GENERATED'',
                    generationExpression := getProp raw ''GENERATION_EXPRESSION'' \<rparr>)))"

section \<open>The declared shape of a raw row\<close>

text \<open>The shapes the type \<^verbatim>\<open>ColumnMetadataRaw\<close> declares for the twenty-two fields: a string,
  a number, a string or null, a number or null, or one of a fixed list of literals.\<close>

datatype shape = ShString | ShNumber | ShNullableString | ShNullableNumber | ShEnum "string list"

fun matchesShape :: "shape \<Rightarrow> js_value \<Rightarrow> bool" where
  "matchesShape ShString v = (case v of Str s \<Rightarrow> True | _ \<Rightarrow> False)"
| "matchesShape ShNumber v = (case v of Num n \<Rightarrow> True | _ \<Rightarrow> False)"
| "matchesShape ShNullableString v = (case v of Null \<Rightarrow> True | Str s \<Rightarrow> True | _ \<Rightarrow> False)"
| "matchesShape ShNullableNumber v = (case v of Null \<Rightarrow> True | Num n \<Rightarrow> True | _ \<Rightarrow> False)"
| "matchesShape (ShEnum lits) v = (case v of Str s \<Rightarrow> s \<in> set lits | _ \<Rightarrow> False)"

definition declaredShape :: "(string \<times> shape) list" where
  "declaredShape =
    [(''TABLE_CATALOG'', ShString),
     (''TABLE_SCHEMA'', ShString),
     (''TABLE_NAME'', ShString),
     (''COLUMN_NAME'', ShString),
     (''ORDINAL_POSITION'', ShNumber),
     (''COLUMN_DEFAULT'', ShNullableString),
     (''IS_NULLABLE'', ShEnum [''YES'', ''NO'']),
     (''DATA_TYPE'', ShString),
     (''CHARACTER_MAXIMUM_LENGTH'', ShNullableNumber),
     (''CHARACTER_OCTET_LENGTH'', ShNullableNumber),
     (''NUMERIC_PRECISION'', ShNullableNumber),
     (''NUMERIC_SCALE'', ShNullableNumber),
     (''DATETIME_PRECISION'', ShNullableNumber),
     (''CHARACTER_SET_NAME'', ShNullableString),
     (''COLLATION_NAME'', ShNullableString),
     (''COLUMN_TYPE'', ShString),
     (''COLUMN_KEY'', ShEnum [''PRI'', ''UNI'', ''MUL'', '''']),
     (''EXTRA'', ShString),
     (''PRIVILEGES'', ShString),
     (''COLUMN_COMMENT'', ShString),
     (''IS_GENERATED'', ShString),
     (''GENERATION_EXPRESSION'', ShNullableString)]"

text \<open>Every required field is present.\<close>

definition requiredPresent :: "js_object \<Rightarrow> bool" where
  "requiredPresent r = list_all (hasKey r) requiredKeys"

text \<open>Every field that is present matches its declared shape.\<close>

definition presentFieldsMatch :: "js_object \<Rightarrow> bool" where
  "presentFieldsMatch r =
     list_all (\<lambda>(k, v). case map_of declaredShape k of None \<Rightarrow> True | Some sh \<Rightarrow> matchesShape sh v) r"

text \<open>Every declared field, read from the row, matches its declared shape; a field that is
  absent reads as \<^verbatim>\<open>undefined\<close>.\<close>

definition allFieldsMatch :: "js_object \<Rightarrow> bool" where
  "allFieldsMatch r = list_all (\<lambda>(k, sh). matchesShape sh (getProp r k)) declaredShape"

text \<open>The row without one of its fields.\<close>

definition removeKey :: "string \<Rightarrow> js_object \<Rightarrow> js_object" where
  "removeKey key obj = filter (\<lambda>(k, v). k \<noteq> key) obj"

text \<open>A catalog row as the server sends it: column \<^verbatim>\<open>id\<close> of table \<^verbatim>\<open>users\<close>.\<close>

definition exampleRow :: js_object where
  "exampleRow =
    [(''TABLE_CATALOG'', Str ''def''),
     (''TABLE_SCHEMA'', Str ''shop''),
     (''TABLE_NAME'', Str ''users''),
     (''COLUMN_NAME'', Str ''id''),
     (''ORDINAL_POSITION'', Num 1),
     (''COLUMN_DEFAULT'', Null),
     (''IS_NULLABLE'', Str ''NO''),
     (''DATA_TYPE'', Str ''int''),
     (''CHARACTER_MAXIMUM_LENGTH'', Null),
     (''CHARACTER_OCTET_LENGTH'', Null),
     (''NUMERIC_PRECISION'', Num 10),
     (''NUMERIC_SCALE'', Num 0),
     (''DATETIME_PRECISION'', Null),
     (''CHARACTER_SET_NAME'', Null),
     (''COLLATION_NAME'', Null),
     (''COLUMN_TYPE'', Str ''int(11)''),
     (''COLUMN_KEY'', Str ''PRI''),
     (''EXTRA'', Str ''auto_increment''),
     (''PRIVILEGES'', Str ''select,insert,update,references''),
     (''COLUMN_COMMENT'', Str ''''),
     (''IS_GENERATED'', Str ''NEVER''),
     (''GENERATION_EXPRESSION'', Null)]"

section \<open>Column predicates\<close>

definition isPrimaryKey :: "MySQLTableColumn \<Rightarrow> bool" where
  "isPrimaryKey this \<longleftrightarrow> columnKey this = Str ''PRI''"

definition allowsNull :: "MySQLTableColumn \<Rightarrow> bool" where
  "allowsNull this \<longleftrightarrow> isNullable this = Str ''YES''"

text \<open>\<^verbatim>\<open>this.extra.includes("auto_increment")\<close>: only a string has the method.\<close>

definition isAutoIncrement :: "MySQLTableColumn \<Rightarrow> js_error + bool" where
  "isAutoIncrement this =
     (case extra this of Str s \<Rightarrow> Inr (str_includes s ''auto_increment'') | _ \<Rightarrow> Inl TypeError)"

definition getColumnDefinition :: "MySQLTableColumn \<Rightarrow> js_error + string" where
  "getColumnDefinition this =
     (case isAutoIncrement this of
        Inl e \<Rightarrow> Inl e
      | Inr ai \<Rightarrow>
          Inr (ToString (columnName this) @ '' '' @ ToString (columnType this) @
               (if isPrimaryKey this then '' PRIMARY KEY'' else '''') @
               (if ai then '' AUTO_INCREMENT'' else '''') @
               (if allowsNull this then '''' else '' NOT NULL'')))"

text \<open>\<^verbatim>\<open>Object.entries(column.toJSON())\<close>: the fields in the order the class declares them.\<close>

definition toJSON :: "MySQLTableColumn \<Rightarrow> js_object" where
  "toJSON this =
    [(''tableCatalog'', tableCatalog this),
     (''tableSchema'', tableSchema this),
     (''tableName'', tableName this),
     (''columnName'', columnName this),
     (''ordinalPosition'', ordinalPosition this),
     (''columnDefault'', columnDefault this),
     (''isNullable'', isNullable this),
     (''dataType'', dataType this),
     (''characterMaximumLength'', characterMaximumLength this),
     (''characterOctetLength'', characterOctetLength this),
     (''numericPrecision'', numericPrecision this),
     (''numericScale'', numericScale this),
     (''datetimePrecision'', datetimePrecision this),
     (''characterSetName'', characterSetName this),
     (''collationName'', collationName this),
     (''columnType'', columnType this),
     (''columnKey'', columnKey this),
     (''extra'', extra this),
     (''privileges'', privileges this),
     (''columnComment'', columnComment this),
     (''isGenerated'', isGenerated this),
     (''generationExpression'', generationExpression this)]"

section \<open>Tables (class MySQLTable)\<close>

text \<open>A JavaScript \<^verbatim>\<open>Map\<close> keeps its entries in insertion order: \<^verbatim>\<open>set\<close> replaces the value of
  a key that is there, where it is, and appends a key that is not.\<close>

fun Map_set :: "'k \<Rightarrow> 'v \<Rightarrow> ('k \<times> 'v) list \<Rightarrow> ('k \<times> 'v) list" where
  "Map_set k v [] = [(k, v)]"
| "Map_set k v ((k', v') # rest) =
     (if k' = k then (k, v) # rest else (k', v') # Map_set k v rest)"

definition Map_get :: "('k \<times> 'v) list \<Rightarrow> 'k \<Rightarrow> 'v option" where
  "Map_get m k = map_of m k"

definition Map_values :: "('k \<times> 'v) list \<Rightarrow> 'v list" where
  "Map_values m = map snd m"

record MySQLTable =
  table_tableName :: js_value
  columns :: "(js_value \<times> MySQLTableColumn) list"

text \<open>The loop of the constructor: import each raw row into a new column and store it under
  the row's \<^verbatim>\<open>COLUMN_NAME\<close>.\<close>

fun importColumns ::
  "js_object list \<Rightarrow> (js_value \<times> MySQLTableColumn) list \<Rightarrow>
     js_error + (js_value \<times> MySQLTableColumn) list" where
  "importColumns [] cols = Inr cols"
| "importColumns (raw # rest) cols =
     (case importFromRawData (Obj raw) newColumn of
        (Inl e, column) \<Rightarrow> Inl e
      | (Inr u, column) \<Rightarrow> importColumns rest (Map_set (getProp raw ''COLUMN_NAME'') column cols))"

definition new_MySQLTable :: "js_value \<Rightarrow> js_object list \<Rightarrow> js_error + MySQLTable" where
  "new_MySQLTable name raws =
     (case importColumns raws [] of
        Inl e \<Rightarrow> Inl e
      | Inr cols \<Rightarrow> Inr \<lparr> table_tableName = name, columns = cols \<rparr>)"

definition addColumn :: "MySQLTable \<Rightarrow> MySQLTableColumn \<Rightarrow> MySQLTable" where
  "addColumn this column = this\<lparr> columns := Map_set (columnName column) column (columns this) \<rparr>"

definition getColumns :: "MySQLTable \<Rightarrow> MySQLTableColumn list" where
  "getColumns this = Map_values (columns this)"

text \<open>\<^verbatim>\<open>getColumn\<close> answers the column or \<^verbatim>\<open>null\<close>.\<close>

definition getColumn :: "MySQLTable \<Rightarrow> js_value \<Rightarrow> MySQLTableColumn option" where
  "getColumn this name = Map_get (columns this) name"

section \<open>CREATE TABLE generation\<close>

text \<open>\<^verbatim>\<open>str.replace(/c/g, r)\<close> for a pattern of one character.\<close>

definition replaceAllChar :: "char \<Rightarrow> string \<Rightarrow> string \<Rightarrow> string" where
  "replaceAllChar c r s = concat (map (\<lambda>x. if x = c then r else [x]) s)"

text \<open>\<^verbatim>\<open>#escapeString\<close>: single quotes doubled, then backslashes doubled; only a string has
  \<^verbatim>\<open>replace\<close>.\<close>

definition escapeString :: "js_value \<Rightarrow> js_error + string" where
  "escapeString str =
     (case str of
        Str s \<Rightarrow> Inr (replaceAllChar (CHR 0x5C) [CHR 0x5C, CHR 0x5C]
                        (replaceAllChar (CHR 0x27) [CHR 0x27, CHR 0x27] s))
      | _ \<Rightarrow> Inl TypeError)"

definition formatDefaultValue :: "MySQLTableColumn \<Rightarrow> js_error + js_value" where
  "formatDefaultValue column =
     (if columnDefault column = Null then Inr (Str ''NULL'')
      else
       (case lowerCaseOf (dataType column) of
          Inl e \<Rightarrow> Inl e
        | Inr dt \<Rightarrow>
           if dt \<in> set [''char'', ''varchar'', ''text'', ''enum'', ''set''] then
             (case escapeString (columnDefault column) of
                Inl e \<Rightarrow> Inl e
              | Inr s \<Rightarrow> Inr (Str ([CHR 0x27] @ s @ [CHR 0x27])))
           else
             (case (if dt \<in> set [''timestamp'', ''datetime'']
                    then (case upperCaseOf (columnDefault column) of
                            Inl e \<Rightarrow> Inl e
                          | Inr u \<Rightarrow> Inr (u = ''CURRENT_TIMESTAMP''))
                    else Inr False) of
                Inl e \<Rightarrow> Inl e
              | Inr True \<Rightarrow> Inr (Str ''CURRENT_TIMESTAMP'')
              | Inr False \<Rightarrow>
                  if dt \<in> set [''blob'', ''binary'']
                  then Inr (Str (''x'' @ [CHR 0x27] @ ToString (columnDefault column) @ [CHR 0x27]))
                  else Inr (columnDefault column))))"

text \<open>The body of the loop over the columns: the definition line of one column.\<close>

definition columnDefinitionLine :: "MySQLTableColumn \<Rightarrow> js_error + string" where
  "columnDefinitionLine column =
     (let def0 = ''`'' @ ToString (columnName column) @ ''` '' @ ToString (columnType column);
          def1 = (if \<not> allowsNull column then def0 @ '' NOT NULL'' else def0)
      in case (if columnDefault column \<noteq> Null
               then (case formatDefaultValue column of
                       Inl e \<Rightarrow> Inl e
                     | Inr defaultValue \<Rightarrow> Inr (def1 @ '' DEFAULT '' @ ToString defaultValue))
               else Inr def1) of
           Inl e \<Rightarrow> Inl e
         | Inr def2 \<Rightarrow>
            (case isAutoIncrement column of
               Inl e \<Rightarrow> Inl e
             | Inr ai \<Rightarrow>
                (let def3 = (if ai then def2 @ '' AUTO_INCREMENT'' else def2)
                 in if truthy (columnComment column)
                    then (case escapeString (columnComment column) of
                            Inl e \<Rightarrow> Inl e
                          | Inr s \<Rightarrow> Inr (def3 @ '' COMMENT '' @ [CHR 0x27] @ s @ [CHR 0x27]))
                    else Inr def3)))"

text \<open>What the loop collects: the definition lines, and the back-quoted names of the
  primary-key, unique-key and index columns.\<close>

record ddl_parts =
  columnDefinitions :: "string list"
  primaryKeys :: "string list"
  uniqueKeys :: "string list"
  indexes :: "string list"

fun collectColumns :: "MySQLTableColumn list \<Rightarrow> ddl_parts \<Rightarrow> js_error + ddl_parts" where
  "collectColumns [] acc = Inr acc"
| "collectColumns (column # rest) acc =
     (case columnDefinitionLine column of
        Inl e \<Rightarrow> Inl e
      | Inr line \<Rightarrow>
         (let acc1 = acc\<lparr> columnDefinitions := columnDefinitions acc @ [line] \<rparr>;
              quoted = ''`'' @ ToString (columnName column) @ ''`'';
              acc2 = (if isPrimaryKey column then acc1\<lparr> primaryKeys := primaryKeys acc1 @ [quoted] \<rparr>
                      else if columnKey column = Str ''UNI''
                        then acc1\<lparr> uniqueKeys := uniqueKeys acc1 @ [quoted] \<rparr>
                      else if columnKey column = Str ''MUL''
                        then acc1\<lparr> indexes := indexes acc1 @ [quoted] \<rparr>
                      else acc1)
          in collectColumns rest acc2))"

text \<open>\<^verbatim>\<open>Array.prototype.join\<close> on strings.\<close>

fun join :: "string \<Rightarrow> string list \<Rightarrow> string" where
  "join sep [] = ''''"
| "join sep [x] = x"
| "join sep (x # y # rest) = x @ sep @ join sep (y # rest)"

definition uniqueKeyClause :: "string \<Rightarrow> string" where
  "uniqueKeyClause uniqueCol =
     ''UNIQUE KEY `'' @ replaceAllChar (CHR ''`'') '''' uniqueCol @ ''_unique` ('' @ uniqueCol @ '')''"

record create_options =
  engine :: js_value
  charset :: js_value
  collation :: js_value
  comment :: js_value

text \<open>The default \<^verbatim>\<open>options = {}\<close>.\<close>

definition noOptions :: create_options where
  "noOptions = \<lparr> engine = Undefined, charset = Undefined, collation = Undefined,
     comment = Undefined \<rparr>"

text \<open>The clauses between the parentheses: the column lines, one \<^verbatim>\<open>PRIMARY KEY\<close> clause when
  there is a primary-key column, and one \<^verbatim>\<open>UNIQUE KEY\<close> clause for each unique column. The
  index columns are collected and not written.\<close>

definition tableClauses :: "ddl_parts \<Rightarrow> string list" where
  "tableClauses parts =
     (if length (primaryKeys parts) > 0
      then columnDefinitions parts @ [''PRIMARY KEY ('' @ join '', '' (primaryKeys parts) @ '')'']
      else columnDefinitions parts) @
     map uniqueKeyClause (uniqueKeys parts)"

text \<open>What follows the closing parenthesis: the engine when given, the character set and
  the collation (the option, else the first column's, else a fixed one), the table comment
  when given, and the semicolon.\<close>

definition tableOptionsText :: "MySQLTableColumn \<Rightarrow> create_options \<Rightarrow> js_error + string" where
  "tableOptionsText first options =
     (let query1 = (if truthy (engine options) then '' ENGINE='' @ ToString (engine options) else []);
          charset' = js_or (js_or (charset options) (characterSetName first)) (Str ''utf8mb4'');
          collation' = js_or (js_or (collation options) (collationName first))
                         (Str ''utf8mb4_unicode_ci'');
          query2 = query1 @ '' DEFAULT CHARSET='' @ ToString charset' @
                   '' COLLATE='' @ ToString collation'
      in if truthy (comment options)
         then (case escapeString (comment options) of
                 Inl e \<Rightarrow> Inl e
               | Inr s \<Rightarrow> Inr (query2 @ '' COMMENT='' @ [CHR 0x27] @ s @ [CHR 0x27] @ '';''))
         else Inr (query2 @ '';''))"

definition generateCreateTableQuery ::"MySQLTable \<Rightarrow> create_options \<Rightarrow> js_error + string" where
  "generateCreateTableQuery this options =
     (case getColumns this of
        [] \<Rightarrow> Inl (Error (''Table '' @ ToString (table_tableName this) @ '' has no columns''))
      | first # others \<Rightarrow>
         (case collectColumns (first # others)
                 \<lparr> columnDefinitions = [], primaryKeys = [], uniqueKeys = [], indexes = [] \<rparr> of
            Inl e \<Rightarrow> Inl e
          | Inr parts \<Rightarrow>
             (case tableOptionsText first options of
                Inl e \<Rightarrow> Inl e
              | Inr rest \<Rightarrow>
                  Inr (''CREATE TABLE `'' @ ToString (table_tableName this) @ ''` (\<newline>  '' @
                       join '',\<newline>  '' (tableClauses parts) @ ''\<newline>)'' @ rest))))"

section \<open>Databases (class MySQLDatabase) and the building loop of the renderers\<close>

record MySQLDatabase =
  databaseName :: js_value
  tables :: "(js_value \<times> MySQLTable) list"

text \<open>\<^verbatim>\<open>new MySQLDatabase(name)\<close> and \<^verbatim>\<open>new MySQLTable(name)\<close>, both without rows.\<close>

definition new_MySQLDatabase :: "js_value \<Rightarrow> MySQLDatabase" where
  "new_MySQLDatabase name = \<lparr> databaseName = name, tables = [] \<rparr>"

definition emptyTable :: "js_value \<Rightarrow> MySQLTable" where
  "emptyTable name = \<lparr> table_tableName = name, columns = [] \<rparr>"

definition addTable :: "MySQLDatabase \<Rightarrow> MySQLTable \<Rightarrow> MySQLDatabase" where
  "addTable this table = this\<lparr> tables := Map_set (table_tableName table) table (tables this) \<rparr>"

text \<open>
  One turn of the loop that both source renderers run over the rows: import the row into
  a new column, find the table of that name or create and register it, and add the column
  to it. The table is an object held by the map, so adding the column changes the entry
  under the key where the table was found.
\<close>

definition addRow :: "js_object \<Rightarrow> MySQLDatabase \<Rightarrow> js_error + MySQLDatabase" where
  "addRow jsonData db =
     (case importFromRawData (Obj jsonData) newColumn of
        (Inl e, column) \<Rightarrow> Inl e
      | (Inr u, column) \<Rightarrow>
         (case Map_get (tables db) (tableName column) of
            None \<Rightarrow>
              (let table = emptyTable (tableName column);
                   db1 = addTable db table
               in Inr (db1\<lparr> tables := Map_set (tableName column) (addColumn table column) (tables db1) \<rparr>))
          | Some table \<Rightarrow>
              Inr (db\<lparr> tables := Map_set (tableName column) (addColumn table column) (tables db) \<rparr>)))"

fun addRows :: "js_object list \<Rightarrow> MySQLDatabase \<Rightarrow> js_error + MySQLDatabase" where
  "addRows [] db = Inr db"
| "addRows (jsonData # rest) db =
     (case addRow jsonData db of Inl e \<Rightarrow> Inl e | Inr db' \<Rightarrow> addRows rest db')"

text \<open>The model both renderers build from a list of rows that is not empty.\<close>

definition buildDatabase :: "js_object \<Rightarrow> js_object list \<Rightarrow> js_error + MySQLDatabase" where
  "buildDatabase first others =
     addRows (first # others) (new_MySQLDatabase (getProp first ''TABLE_SCHEMA''))"

section \<open>Notions the claims speak of\<close>

text \<open>SQL escaping as the specification words it: every single quote doubled and every
  backslash doubled.\<close>

definition sqlEscaped :: "string \<Rightarrow> string" where
  "sqlEscaped s =
     concat (map (\<lambda>c. if c = CHR 0x27 then [CHR 0x27, CHR 0x27]
                       else if c = CHR 0x5C then [CHR 0x5C, CHR 0x5C] else [c]) s)"

text \<open>The column a row is imported into.\<close>

definition importedColumn :: "js_object \<Rightarrow> MySQLTableColumn" where
  "importedColumn raw = snd (importFromRawData (Obj raw) newColumn)"

text \<open>The invariant of a table: every column it holds names the table as its own. In a
  database, moreover, every table is registered under its name.\<close>

definition tableInvariant :: "MySQLTable \<Rightarrow> bool" where
  "tableInvariant t = list_all (\<lambda>(k, c). tableName c = table_tableName t) (columns t)"

definition databaseInvariant :: "MySQLDatabase \<Rightarrow> bool" where
  "databaseInvariant db = list_all (\<lambda>(k, t). table_tableName t = k \<and> tableInvariant t) (tables db)"

text \<open>A column with a text default, alone in a table; and a second catalog row for the
  column \<^verbatim>\<open>id\<close> of table \<^verbatim>\<open>users\<close>, with other metadata.\<close>

definition flagColumn :: MySQLTableColumn where
  "flagColumn = newColumn\<lparr> tableName := Str ''t'', columnName := Str ''flag'',
     columnDefault := Str ''0'', isNullable := Str ''YES'', dataType := Str ''varchar'',
     columnType := Str ''varchar(10)'', columnKey := Str '''', extra := Str '''',
     columnComment := Str '''' \<rparr>"

definition flagTable :: MySQLTable where
  "flagTable = addColumn (emptyTable (Str ''t'')) flagColumn"

definition exampleRow2 :: js_object where
  "exampleRow2 =
    [(''TABLE_CATALOG'', Str ''def''),
     (''TABLE_SCHEMA'', Str ''shop''),
     (''TABLE_NAME'', Str ''users''),
     (''COLUMN_NAME'', Str ''id''),
     (''ORDINAL_POSITION'', Num 2),
     (''COLUMN_DEFAULT'', Str ''0''),
     (''IS_NULLABLE'', Str ''YES''),
     (''DATA_TYPE'', Str ''smallint''),
     (''CHARACTER_MAXIMUM_LENGTH'', Null),
     (''CHARACTER_OCTET_LENGTH'', Null),
     (''NUMERIC_PRECISION'', Num 5),
     (''NUMERIC_SCALE'', Num 0),
     (''DATETIME_PRECISION'', Null),
     (''CHARACTER_SET_NAME'', Null),
     (''COLLATION_NAME'', Null),
     (''COLUMN_TYPE'', Str ''smallint(6)''),
     (''COLUMN_KEY'', Str ''''),
     (''EXTRA'', Str ''''),
     (''PRIVILEGES'', Str ''select''),
     (''COLUMN_COMMENT'', Str ''second''),
     (''IS_GENERATED'', Str ''NEVER''),
     (''GENERATION_EXPRESSION'', Null)]"

text \<open>Two catalog rows of a table \<^verbatim>\<open>t\<close> with defaults: a \<^verbatim>\<open>varchar\<close> column with default
  \<^verbatim>\<open>0\<close> and a \<^verbatim>\<open>timestamp\<close> column with default \<^verbatim>\<open>current_timestamp\<close>; and the table
  that holds the columns imported from them.\<close>

definition flagRow :: js_object where
  "flagRow =
    [(''TABLE_CATALOG'', Str ''def''),
     (''TABLE_SCHEMA'', Str ''shop''),
     (''TABLE_NAME'', Str ''t''),
     (''COLUMN_NAME'', Str ''flag''),
     (''ORDINAL_POSITION'', Num 1),
     (''COLUMN_DEFAULT'', Str ''0''),
     (''IS_NULLABLE'', Str ''YES''),
     (''DATA_TYPE'', Str ''varchar''),
     (''CHARACTER_MAXIMUM_LENGTH'', Num 10),
     (''CHARACTER_OCTET_LENGTH'', Num 40),
     (''NUMERIC_PRECISION'', Null),
     (''NUMERIC_SCALE'', Null),
     (''DATETIME_PRECISION'', Null),
     (''CHARACTER_SET_NAME'', Str ''utf8mb4''),
     (''COLLATION_NAME'', Str ''utf8mb4_general_ci''),
     (''COLUMN_TYPE'', Str ''varchar(10)''),
     (''COLUMN_KEY'', Str ''''),
     (''EXTRA'', Str ''''),
     (''PRIVILEGES'', Str ''select''),
     (''COLUMN_COMMENT'', Str ''''),
     (''IS_GENERATED'', Str ''NEVER''),
     (''GENERATION_EXPRESSION'', Null)]"

definition stampRow :: js_object where
  "stampRow =
    [(''TABLE_CATALOG'', Str ''def''),
     (''TABLE_SCHEMA'', Str ''shop''),
     (''TABLE_NAME'', Str ''t''),
     (''COLUMN_NAME'', Str ''created''),
     (''ORDINAL_POSITION'', Num 2),
     (''COLUMN_DEFAULT'', Str ''current_timestamp''),
     (''IS_NULLABLE'', Str ''NO''),
     (''DATA_TYPE'', Str ''timestamp''),
     (''CHARACTER_MAXIMUM_LENGTH'', Null),
     (''CHARACTER_OCTET_LENGTH'', Null),
     (''NUMERIC_PRECISION'', Null),
     (''NUMERIC_SCALE'', Null),
     (''DATETIME_PRECISION'', Num 0),
     (''CHARACTER_SET_NAME'', Null),
     (''COLLATION_NAME'', Null),
     (''COLUMN_TYPE'', Str ''timestamp''),
     (''COLUMN_KEY'', Str ''''),
     (''EXTRA'', Str ''''),
     (''PRIVILEGES'', Str ''select''),
     (''COLUMN_COMMENT'', Str ''''),
     (''IS_GENERATED'', Str ''NEVER''),
     (''GENERATION_EXPRESSION'', Null)]"

definition defaultsTable :: MySQLTable where
  "defaultsTable =
     addColumn (addColumn (emptyTable (Str ''t'')) (importedColumn flagRow)) (importedColumn stampRow)"

section \<open>JSON.stringify on a list of rows\<close>

text \<open>
  The built-in, as ECMAScript defines it, on the values the program gives it: an array of
  plain objects with primitive property values. A string is quoted with the seven short
  escapes and \<^verbatim>\<open>\u00xx\<close> for the other control characters; a property whose value is
  \<^verbatim>\<open>undefined\<close> is left out; with a non-empty gap every member and element is put on
  a line of its own, indented by one more gap than its parent.
\<close>

definition jsonEscapes :: "(char \<times> string) list" where
  "jsonEscapes =
    [(CHR 0x08, [CHR 0x5C, CHR ''b'']),
     (CHR 0x09, [CHR 0x5C, CHR ''t'']),
     (CHR 0x0A, [CHR 0x5C, CHR ''n'']),
     (CHR 0x0C, [CHR 0x5C, CHR ''f'']),
     (CHR 0x0D, [CHR 0x5C, CHR ''r'']),
     (CHR 0x22, [CHR 0x5C, CHR 0x22]),
     (CHR 0x5C, [CHR 0x5C, CHR 0x5C])]"

definition hexDigit :: "nat \<Rightarrow> char" where
  "hexDigit d = ''0123456789abcdef'' ! d"

definition unicodeEscape :: "char \<Rightarrow> string" where
  "unicodeEscape c =
     (let n = (of_char c :: nat)
      in [CHR 0x5C, CHR ''u'', CHR ''0'', CHR ''0'', hexDigit (n div 16), hexDigit (n mod 16)])"

definition QuoteJSONChar :: "char \<Rightarrow> string" where
  "QuoteJSONChar c =
     (case map_of jsonEscapes c of
        Some e \<Rightarrow> e
      | None \<Rightarrow> if (of_char c :: nat) < 32 then unicodeEscape c else [c])"

definition QuoteJSONString :: "string \<Rightarrow> string" where
  "QuoteJSONString s = [CHR 0x22] @ concat (map QuoteJSONChar s) @ [CHR 0x22]"

text \<open>The text of a primitive value; none for \<^verbatim>\<open>undefined\<close>. A number, being a safe
  integer, is written with all its digits.\<close>

fun SerializeJSONProperty :: "js_value \<Rightarrow> string option" where
  "SerializeJSONProperty Undefined = None"
| "SerializeJSONProperty Null = Some ''null''"
| "SerializeJSONProperty (Bool b) = Some (if b then ''true'' else ''false'')"
| "SerializeJSONProperty (Num n) = Some (intToString n)"
| "SerializeJSONProperty (Str s) = Some (QuoteJSONString s)"

text \<open>The members of an object: one text for each property that has a value.\<close>

definition serializeMembers :: "js_object \<Rightarrow> string \<Rightarrow> string list" where
  "serializeMembers obj gap =
     concat (map (\<lambda>(k, v). case SerializeJSONProperty v of
                               None \<Rightarrow> []
                             | Some strP \<Rightarrow>
                                 [QuoteJSONString k @ '':'' @ (if gap \<noteq> [] then '' '' else []) @ strP])
                 obj)"

definition SerializeJSONObject :: "js_object \<Rightarrow> string \<Rightarrow> string \<Rightarrow> string" where
  "SerializeJSONObject obj indent gap =
     (let stepback = indent;
          indent' = indent @ gap;
          partial = serializeMembers obj gap
      in if partial = [] then ''{}''
         else if gap = [] then ''{'' @ join '','' partial @ ''}''
         else ''{'' @ ''\<newline>'' @ indent' @ join ('','' @ ''\<newline>'' @ indent') partial @
              ''\<newline>'' @ stepback @ ''}'')"

definition SerializeJSONArray :: "js_object list \<Rightarrow> string \<Rightarrow> string \<Rightarrow> string" where
  "SerializeJSONArray elements indent gap =
     (let stepback = indent;
          indent' = indent @ gap;
          partial = map (\<lambda>obj. SerializeJSONObject obj indent' gap) elements
      in if partial = [] then ''[]''
         else if gap = [] then ''['' @ join '','' partial @ '']''
         else ''['' @ ''\<newline>'' @ indent' @ join ('','' @ ''\<newline>'' @ indent') partial @
              ''\<newline>'' @ stepback @ '']'')"

text \<open>\<^verbatim>\<open>JSON.stringify(rows, null, space)\<close> for a string \<^verbatim>\<open>space\<close>: the gap is its first ten
  characters.\<close>

definition JSON_stringify :: "js_object list \<Rightarrow> string \<Rightarrow> string" where
  "JSON_stringify rows space = SerializeJSONArray rows [] (take 10 space)"

section \<open>The render button (index.js)\<close>

text \<open>\<^verbatim>\<open>table_names.indexOf(v) != -1\<close> on the list of checked names, which are strings.\<close>

definition inNames :: "string list \<Rightarrow> js_value \<Rightarrow> bool" where
  "inNames table_names v = (case v of Str s \<Rightarrow> s \<in> set table_names | _ \<Rightarrow> False)"

text \<open>
  The click handler: nothing without the output area; else keep the rows of the loaded
  schema whose \<^verbatim>\<open>TABLE_NAME\<close> is set and is among the checked names, and write them as
  JSON with a gap of two spaces. The result is the new text of the output area.
\<close>

definition selectedRows :: "string list \<Rightarrow> js_object list \<Rightarrow> js_object list" where
  "selectedRows table_names table_schema =
     filter (\<lambda>row. truthy (getProp row ''TABLE_NAME'') \<and>
                   inNames table_names (getProp row ''TABLE_NAME'')) table_schema"

definition render_button_click :: "bool \<Rightarrow> string list \<Rightarrow> js_object list \<Rightarrow> string option" where
  "render_button_click output_textarea table_names table_schema =
     (if \<not> output_textarea then None
      else
        (let result_schema = selectedRows table_names table_schema
         in Some (JSON_stringify result_schema ''  '')))"

section \<open>JSON.parse on the text of a list of rows\<close>


























section \<open>The source renderers\<close>

text \<open>The comment that opens the output of \<^verbatim>\<open>convertColumnMetadataToJsCode\<close>: the first
  entry of its output list, a template literal of twenty-seven lines.\<close>

definition typedefComment :: string where
  \<open>typedefComment = join ''\<newline>''
    ['''',
     ''/**'',
     '' * @typedef {Object} ColumnMetadataParams'',
     '' * @property {string} tableCatalog - Table catalog (usually 'def')'',
     '' * @property {string} tableSchema - Database/schema name'',
     '' * @property {string} tableName - Table name'',
     '' * @property {string} columnName - Column name'',
     '' * @property {number} ordinalPosition - Position in table (1-based)'',
     '' * @property {string|null} columnDefault - Default value'',
     '' * @property {'YES'|'NO'} isNullable - Nullable status'',
     '' * @property {string} dataType - Data type (e.g. 'int', 'varchar')'',
     '' * @property {number|null} characterMaximumLength - Max length for string types (characters)'',
     '' * @property {number|null} characterOctetLength - Max length for string types (bytes)'',
     '' * @property {number|null} numericPrecision - Precision for numeric types'',
     '' * @property {number|null} numericScale - Scale for numeric types'',
     '' * @property {number|null} datetimePrecision - Precision for datetime types'',
     '' * @property {string|null} characterSetName - Character set for string types'',
     '' * @property {string|null} collationName - Collation for string types'',
     '' * @property {string} columnType - Full column type (e.g. 'int(11) unsigned')'',
     '' * @property {'PRI'|'UNI'|'MUL'|'' @ [CHR 0x27, CHR 0x27] @
       ''} columnKey - Key type (primary/unique/etc.)'',
     '' * @property {string} extra - Extra information (e.g. 'auto_increment')'',
     '' * @property {string} privileges - Column privileges'',
     '' * @property {string} columnComment - Column comment'',
     '' * @property {'NEVER'|'ALWAYS'|string} isGenerated - Generation status'',
     '' * @property {string|null} generationExpression - Generation expression'',
     '' */'',
     '''',
     '''']\<close>

text \<open>\<^verbatim>\<open>JSON.stringify(value)\<close> inside a template literal: \<^verbatim>\<open>undefined\<close> prints as that
  word.\<close>

definition stringifyInTemplate :: "js_value \<Rightarrow> string" where
  "stringifyInTemplate v = (case SerializeJSONProperty v of None \<Rightarrow> ''undefined'' | Some t \<Rightarrow> t)"

definition columnObjectLines :: "MySQLTableColumn \<Rightarrow> string list" where
  "columnObjectLines column =
     [''    '' @ ToString (columnName column) @ '': {''] @
     map (\<lambda>(key, v). ''        '' @ key @ '': '' @ stringifyInTemplate v @ '','') (toJSON column) @
     [''    },\<newline>'']"

definition tableObjectLines :: "MySQLTable \<Rightarrow> string list" where
  "tableObjectLines table =
     [''export const '' @ ToString (table_tableName table) @ '' = {''] @
     concat (map columnObjectLines (getColumns table)) @
     [''};'']"

definition convertColumnMetadataToJsCode :: "js_object list \<Rightarrow> js_error + string" where
  "convertColumnMetadataToJsCode data =
     (case data of
        [] \<Rightarrow> Inr []
      | first # others \<Rightarrow>
         (case buildDatabase first others of
            Inl e \<Rightarrow> Inl e
          | Inr db \<Rightarrow>
              Inr (join ''\<newline>''
                     ([typedefComment] @ concat (map tableObjectLines (Map_values (tables db)))))))"

text \<open>\<^verbatim>\<open>str.charAt(0).toUpperCase() + str.slice(1)\<close>: only a string has \<^verbatim>\<open>charAt\<close>.\<close>

definition upperCaseFirstLetter :: "js_value \<Rightarrow> js_error + string" where
  "upperCaseFirstLetter str =
     (case str of
        Str s \<Rightarrow> Inr (case s of [] \<Rightarrow> [] | c # cs \<Rightarrow> toUpperChar c # cs)
      | _ \<Rightarrow> Inl TypeError)"

text \<open>The two loops over the columns of a class: the typed fields, then the assignments of
  the constructor.\<close>

fun classFieldLines :: "MySQLTableColumn list \<Rightarrow> js_error + string list" where
  "classFieldLines [] = Inr []"
| "classFieldLines (column # rest) =
     (case hasStringDataType column of
        Inl e \<Rightarrow> Inl e
      | Inr isString \<Rightarrow>
         (case classFieldLines rest of
            Inl e \<Rightarrow> Inl e
          | Inr ls \<Rightarrow>
              Inr ([''    /** @type {'' @ (if isString then ''string'' else ''number'') @ ''} */'',
                    ''    '' @ ToString (columnName column) @ '';''] @ ls)))"

fun classAssignLines :: "MySQLTableColumn list \<Rightarrow> js_error + string list" where
  "classAssignLines [] = Inr []"
| "classAssignLines (column # rest) =
     (case hasStringDataType column of
        Inl e \<Rightarrow> Inl e
      | Inr isString \<Rightarrow>
         (case classAssignLines rest of
            Inl e \<Rightarrow> Inl e
          | Inr ls \<Rightarrow>
              Inr ((''        this.'' @ ToString (columnName column) @ '' = '' @
                    (if isString then ''String'' else ''Number'') @
                    ''(data.'' @ ToString (columnName column) @ '');'') # ls)))"

definition tableClassLines :: "MySQLTable \<Rightarrow> js_error + string list" where
  "tableClassLines table =
     (case upperCaseFirstLetter (table_tableName table) of
        Inl e \<Rightarrow> Inl e
      | Inr name \<Rightarrow>
         (case classFieldLines (getColumns table) of
            Inl e \<Rightarrow> Inl e
          | Inr fieldLines \<Rightarrow>
             (case classAssignLines (getColumns table) of
                Inl e \<Rightarrow> Inl e
              | Inr assignLines \<Rightarrow>
                  Inr ([''export class '' @ name @ ''Item {''] @ fieldLines @
                       [''    constructor(data) {''] @ assignLines @
                       [''    }'', ''};'']))))"

fun allClassLines :: "MySQLTable list \<Rightarrow> js_error + string list" where
  "allClassLines [] = Inr []"
| "allClassLines (table # rest) =
     (case tableClassLines table of
        Inl e \<Rightarrow> Inl e
      | Inr ls \<Rightarrow>
         (case allClassLines rest of
            Inl e \<Rightarrow> Inl e
          | Inr more_lines \<Rightarrow> Inr (ls @ more_lines)))"

definition convertColumnMetadataToJsClassCode :: "js_object list \<Rightarrow> js_error + string" where
  "convertColumnMetadataToJsClassCode data =
     (case data of
        [] \<Rightarrow> Inr []
      | first # others \<Rightarrow>
         (case buildDatabase first others of
            Inl e \<Rightarrow> Inl e
          | Inr db \<Rightarrow>
             (case allClassLines (Map_values (tables db)) of
                Inl e \<Rightarrow> Inl e
              | Inr ls \<Rightarrow> Inr (join ''\<newline>'' ([[]] @ ls)))))"


section \<open>Facts about the built-ins\<close>

lemma str_includes_iff: "str_includes s n \<longleftrightarrow> (\<exists>p q. s = p @ n @ q)"
proof (induction s)
  case Nil
  show ?case by auto
next
  case (Cons c cs)
  show ?case
  proof
    assume "str_includes (c # cs) n"
    then consider "prefix n (c # cs)" | "str_includes cs n" by auto
    then show "\<exists>p q. c # cs = p @ n @ q"
    proof cases
      case 1
      then obtain q where "c # cs = n @ q" by (auto simp: prefix_def)
      then have "c # cs = [] @ n @ q" by simp
      then show ?thesis by blast
    next
      case 2
      with Cons obtain p q where "cs = p @ n @ q" by blast
      then have "c # cs = (c # p) @ n @ q" by simp
      then show ?thesis by blast
    qed
  next
    assume "\<exists>p q. c # cs = p @ n @ q"
    then obtain p q where pq: "c # cs = p @ n @ q" by blast
    show "str_includes (c # cs) n"
    proof (cases p)
      case Nil
      with pq have "prefix n (c # cs)" by (simp add: prefix_def)
      then show ?thesis by simp
    next
      case (Cons a p')
      with pq have "cs = p' @ n @ q" by simp
      with Cons.IH have "str_includes cs n" by blast
      then show ?thesis by simp
    qed
  qed
qed

lemma str_includes_trans: "str_includes s m \<Longrightarrow> str_includes m n \<Longrightarrow> str_includes s n"
  unfolding str_includes_iff by (metis append.assoc)

text \<open>Every alternative of the integer pattern contains \<^verbatim>\<open>int\<close>, so the pattern tests for
  that substring.\<close>

lemma integerPattern_int: "integerPattern s \<longleftrightarrow> str_includes s ''int''"
proof -
  have a: "str_includes ''integer'' ''int''" "str_includes ''smallint'' ''int''"
    "str_includes ''tinyint'' ''int''" "str_includes ''mediumint'' ''int''"
    "str_includes ''bigint'' ''int''" by simp_all
  show ?thesis unfolding integerPattern_def
    using a str_includes_trans by blast
qed

lemma typeof_string: "typeof v = ''string'' \<longleftrightarrow> (\<exists>s. v = Str s)"
  by (cases v) auto

lemma typeof_number: "typeof v = ''number'' \<longleftrightarrow> (\<exists>n. v = Num n)"
  by (cases v) auto

section \<open>Facts about the validator\<close>

lemma checkRequired_ok: "checkRequired ks obj = Inr () \<longleftrightarrow> (\<forall>k \<in> set ks. hasKey obj k)"
  by (induction ks) auto

lemma checkRequired_error:
  "checkRequired ks obj = Inl e \<Longrightarrow> \<exists>m. e = Error (''Missing required field: '' @ m)"
  by (induction ks) (auto split: if_splits)

lemma checkRequired_missing:
  "k \<in> set ks \<Longrightarrow> \<not> hasKey obj k \<Longrightarrow> (\<forall>k' \<in> set ks. k' \<noteq> k \<longrightarrow> hasKey obj k') \<Longrightarrow>
   checkRequired ks obj = Inl (Error (''Missing required field: '' @ k))"
  by (induction ks) auto

lemma runValidators_ok:
  "runValidators vs obj = Inr () \<longleftrightarrow>
     (\<forall>(k, f) \<in> set vs. typeof (f (getProp obj k)) \<noteq> ''string'')"
  by (induction vs) (auto simp: Let_def split: if_splits)

lemma runValidators_error:
  "runValidators vs obj = Inl e \<Longrightarrow> \<exists>m. e = Error (''Invalid '' @ m)"
  by (induction vs) (auto simp: Let_def split: if_splits)

lemma assert_error_forms:
  assumes "assertColumnMetadataRaw raw = Inl e"
  shows "e = Error ''Input must be a non-null object'' \<or>
         (\<exists>m. e = Error (''Missing required field: '' @ m)) \<or>
         (\<exists>m. e = Error (''Invalid '' @ m))"
proof (cases raw)
  case (Prim v)
  with assms show ?thesis by simp
next
  case (Obj obj)
  with assms show ?thesis
    by (auto split: sum.splits dest: checkRequired_error runValidators_error)
qed

lemma expect_shapes:
  "typeof (expectString v) \<noteq> ''string'' \<longleftrightarrow> matchesShape ShString v"
  "typeof (expectNumber v) \<noteq> ''string'' \<longleftrightarrow> matchesShape ShNumber v"
  "typeof (expectStringOrNull v) \<noteq> ''string'' \<longleftrightarrow> matchesShape ShNullableString v"
  "typeof (expectNumberOrNull v) \<noteq> ''string'' \<longleftrightarrow> matchesShape ShNullableNumber v"
  "typeof (expectIsNullable v) \<noteq> ''string'' \<longleftrightarrow> matchesShape (ShEnum [''YES'', ''NO'']) v"
  "typeof (expectColumnKey v) \<noteq> ''string'' \<longleftrightarrow>
     matchesShape (ShEnum [''PRI'', ''UNI'', ''MUL'', '''']) v"
  "typeof (expectIsGenerated v) \<noteq> ''string'' \<longleftrightarrow> matchesShape ShString v"
  by (cases v; simp add: expectString_def expectNumber_def expectStringOrNull_def
        expectNumberOrNull_def expectIsNullable_def expectColumnKey_def expectIsGenerated_def)+

lemma validators_shapes:
  "(\<forall>(k, f) \<in> set validators. typeof (f (getProp obj k)) \<noteq> ''string'') \<longleftrightarrow>
   (\<forall>(k, sh) \<in> set declaredShape. matchesShape sh (getProp obj k))"
  unfolding validators_def declaredShape_def
  by (simp only: list.set ball_simps ball_empty split_conv expect_shapes)

lemma assert_ok_iff:
  "assertColumnMetadataRaw (Obj r) = Inr () \<longleftrightarrow> requiredPresent r \<and> allFieldsMatch r"
proof -
  have "assertColumnMetadataRaw (Obj r) = Inr () \<longleftrightarrow>
      checkRequired requiredKeys r = Inr () \<and> runValidators validators r = Inr ()"
    by (auto split: sum.splits)
  then show ?thesis
    by (simp only: checkRequired_ok runValidators_ok validators_shapes requiredPresent_def
        allFieldsMatch_def list_all_iff)
qed

lemma hasKey_removeKey: "hasKey (removeKey k obj) k' \<longleftrightarrow> k' \<noteq> k \<and> hasKey obj k'"
  by (force simp: hasKey_def removeKey_def image_iff)

lemma assert_removed:
  assumes "assertColumnMetadataRaw (Obj r) = Inr ()" and "k \<in> set requiredKeys"
  shows "assertColumnMetadataRaw (Obj (removeKey k r)) =
         Inl (Error (''Missing required field: '' @ k))"
proof -
  from assms(1) have "requiredPresent r"
    using assert_ok_iff by blast
  then have "\<forall>k \<in> set requiredKeys. hasKey r k"
    by (simp add: requiredPresent_def list_all_iff)
  then have "checkRequired requiredKeys (removeKey k r) =
      Inl (Error (''Missing required field: '' @ k))"
    using assms(2) by (intro checkRequired_missing) (auto simp: hasKey_removeKey)
  then show ?thesis by simp
qed

lemma exampleRow_valid: "assertColumnMetadataRaw (Obj exampleRow) = Inr ()"
  by code_simp

section \<open>Facts about maps kept in insertion order\<close>

lemma Map_get_set: "Map_get (Map_set k v m) k = Some v"
  by (induction m) (auto simp: Map_get_def)

lemma Map_set_Map_set: "Map_set k v' (Map_set k v m) = Map_set k v' m"
  by (induction m) auto

lemma Map_set_split:
  "Map_set k v m =
     takeWhile (\<lambda>p. fst p \<noteq> k) m @ (k, v) # tl (dropWhile (\<lambda>p. fst p \<noteq> k) m)"
  by (induction m) auto

lemma Map_set_in_place:
  "\<exists>pre post. k \<notin> fst ` set pre \<and> Map_set k v m = pre @ (k, v) # post \<and>
     Map_set k v' (Map_set k v m) = pre @ (k, v') # post"
proof -
  let ?pre = "takeWhile (\<lambda>p. fst p \<noteq> k) m"
  let ?post = "tl (dropWhile (\<lambda>p. fst p \<noteq> k) m)"
  have "k \<notin> fst ` set ?pre" by (auto dest: set_takeWhileD)
  moreover have "Map_set k v m = ?pre @ (k, v) # ?post" by (rule Map_set_split)
  moreover have "Map_set k v' (Map_set k v m) = ?pre @ (k, v') # ?post"
    by (induction m) auto
  ultimately show ?thesis by blast
qed

lemma length_Map_set_again: "length (Map_set k v' (Map_set k v m)) = length (Map_set k v m)"
  by (induction m) auto

lemma list_all_Map_set: "P (k, v) \<Longrightarrow> list_all P m \<Longrightarrow> list_all P (Map_set k v m)"
  by (induction m) auto

lemma Map_get_in_set: "Map_get m k = Some v \<Longrightarrow> (k, v) \<in> set m"
  by (simp add: Map_get_def map_of_SomeD)

section \<open>Facts about CREATE TABLE generation\<close>

lemma escapeString_sqlEscaped: "escapeString (Str s) = Inr (sqlEscaped s)"
  by (induction s) (auto simp: escapeString_def sqlEscaped_def replaceAllChar_def)

lemma formatDefaultValue_cases:
  assumes "dataType column = Str dt" and "columnDefault column = Str d"
  shows "formatDefaultValue column = Inr (Str (
      if toLowerCase dt \<in> set [''char'', ''varchar'', ''text'', ''enum'', ''set'']
        then [CHR 0x27] @ sqlEscaped d @ [CHR 0x27]
      else if toLowerCase dt \<in> set [''timestamp'', ''datetime''] \<and>
              toUpperCase d = ''CURRENT_TIMESTAMP''
        then ''CURRENT_TIMESTAMP''
      else if toLowerCase dt \<in> set [''blob'', ''binary''] then ''x'' @ [CHR 0x27] @ d @ [CHR 0x27]
      else d))"
  using assms
  by (simp add: formatDefaultValue_def escapeString_sqlEscaped)

lemma columnDefinitionLine_default:
  assumes "columnDefault column \<noteq> Null" and "columnDefinitionLine column = Inr l"
  shows "\<exists>v suffix. formatDefaultValue column = Inr v \<and>
     l = ''`'' @ ToString (columnName column) @ ''` '' @ ToString (columnType column) @
         (if allowsNull column then [] else '' NOT NULL'') @
         '' DEFAULT '' @ ToString v @ suffix"
  using assms
  by (auto simp: columnDefinitionLine_def Let_def split: sum.splits if_splits)

lemma join_includes: "x \<in> set xs \<Longrightarrow> \<exists>p q. join sep xs = p @ x @ q"
proof (induction sep xs rule: join.induct)
  case (1 sep)
  then show ?case by simp
next
  case (2 sep x')
  then have "join sep [x'] = [] @ x @ []" by simp
  then show ?case by blast
next
  case (3 sep a b rest)
  show ?case
  proof (cases "x = a")
    case True
    then have "join sep (a # b # rest) = [] @ x @ (sep @ join sep (b # rest))" by simp
    then show ?thesis by blast
  next
    case False
    with 3 obtain p q where "join sep (b # rest) = p @ x @ q" by auto
    then have "join sep (a # b # rest) = (a @ sep @ p) @ x @ q" by simp
    then show ?thesis by blast
  qed
qed

lemma collectColumns_defs:
  "collectColumns cs acc = Inr parts \<Longrightarrow>
   \<exists>ls. columnDefinitions parts = columnDefinitions acc @ ls \<and>
        list_all2 (\<lambda>c l. columnDefinitionLine c = Inr l) cs ls"
proof (induction cs arbitrary: acc)
  case Nil
  then show ?case by simp
next
  case (Cons c cs)
  from Cons.prems obtain l where l: "columnDefinitionLine c = Inr l"
    by (auto split: sum.splits)
  define acc2 where "acc2 =
     (let acc1 = acc\<lparr> columnDefinitions := columnDefinitions acc @ [l] \<rparr>;
          quoted = ''`'' @ ToString (columnName c) @ ''`''
      in (if isPrimaryKey c then acc1\<lparr> primaryKeys := primaryKeys acc1 @ [quoted] \<rparr>
          else if columnKey c = Str ''UNI'' then acc1\<lparr> uniqueKeys := uniqueKeys acc1 @ [quoted] \<rparr>
          else if columnKey c = Str ''MUL'' then acc1\<lparr> indexes := indexes acc1 @ [quoted] \<rparr>
          else acc1))"
  have cd: "columnDefinitions acc2 = columnDefinitions acc @ [l]"
    by (simp add: acc2_def Let_def)
  from Cons.prems l have "collectColumns cs acc2 = Inr parts"
    by (simp add: acc2_def Let_def)
  from Cons.IH [OF this] obtain ls where
    "columnDefinitions parts = columnDefinitions acc2 @ ls"
    "list_all2 (\<lambda>c l. columnDefinitionLine c = Inr l) cs ls" by blast
  with cd l have "columnDefinitions parts = columnDefinitions acc @ (l # ls) \<and>
      list_all2 (\<lambda>c l. columnDefinitionLine c = Inr l) (c # cs) (l # ls)" by simp
  then show ?case by blast
qed

lemma tableOptionsText_end:
  "tableOptionsText first options = Inr rest \<Longrightarrow> rest \<noteq> [] \<and> last rest = CHR '';''"
  by (auto simp: tableOptionsText_def Let_def split: if_splits sum.splits)

lemma query_form:
  assumes "generateCreateTableQuery this options = Inr q"
  shows "\<exists>first others parts rest. getColumns this = first # others \<and>
     collectColumns (first # others)
       \<lparr> columnDefinitions = [], primaryKeys = [], uniqueKeys = [], indexes = [] \<rparr> = Inr parts \<and>
     tableOptionsText first options = Inr rest \<and>
     q = ''CREATE TABLE `'' @ ToString (table_tableName this) @ ''` (\<newline>  '' @
         join '',\<newline>  '' (tableClauses parts) @ ''\<newline>)'' @ rest"
  using assms unfolding generateCreateTableQuery_def
  by (simp split: list.splits sum.splits)

lemma query_shape:
  assumes "generateCreateTableQuery this options = Inr q"
  shows "getColumns this \<noteq> [] \<and> prefix ''CREATE TABLE `'' q \<and> last q = CHR '';''"
proof -
  from query_form [OF assms] obtain first others parts rest where
    f: "getColumns this = first # others" "tableOptionsText first options = Inr rest"
    "q = ''CREATE TABLE `'' @ (ToString (table_tableName this) @ ''` (\<newline>  '' @
         join '',\<newline>  '' (tableClauses parts) @ ''\<newline>)'') @ rest" by auto
  from tableOptionsText_end [OF f(2)] have r: "rest \<noteq> []" "last rest = CHR '';''" by auto
  have "prefix ''CREATE TABLE `'' q" unfolding f(3) by (rule prefixI) (rule refl)
  moreover have "last q = CHR '';''"
    unfolding f(3) using r by (simp only: last_appendR append_is_Nil_conv simp_thms)
  ultimately show ?thesis using f(1) by simp
qed

lemma query_includes_line:
  assumes "generateCreateTableQuery this options = Inr q" and "column \<in> set (getColumns this)"
  shows "\<exists>l. columnDefinitionLine column = Inr l \<and> str_includes q l"
proof -
  from query_form [OF assms(1)] obtain first others parts rest where
    cols: "getColumns this = first # others" and
    parts: "collectColumns (first # others)
       \<lparr> columnDefinitions = [], primaryKeys = [], uniqueKeys = [], indexes = [] \<rparr> = Inr parts" and
    q: "q = (''CREATE TABLE `'' @ ToString (table_tableName this) @ ''` (\<newline>  '') @
         join '',\<newline>  '' (tableClauses parts) @ (''\<newline>)'' @ rest)" by auto
  from collectColumns_defs [OF parts] obtain ls where
    ls: "columnDefinitions parts = ls"
        "list_all2 (\<lambda>c l. columnDefinitionLine c = Inr l) (first # others) ls" by auto
  from ls(2) assms(2) cols obtain l where l: "l \<in> set ls" "columnDefinitionLine column = Inr l"
    by (metis (mono_tags, lifting) in_set_conv_nth list_all2_conv_all_nth)
  have "l \<in> set (tableClauses parts)" using l(1) ls(1) by (simp add: tableClauses_def)
  from join_includes [OF this] obtain p r where
    j: "join '',\<newline>  '' (tableClauses parts) = p @ l @ r" by blast
  have "\<exists>a b. q = a @ l @ b"
    unfolding q j by (metis append.assoc)
  then have "str_includes q l" using str_includes_iff by blast
  with l(2) show ?thesis by blast
qed

section \<open>Facts about the building loop\<close>

lemma import_valid:
  assumes "assertColumnMetadataRaw (Obj r) = Inr ()"
  shows "importFromRawData (Obj r) newColumn = (Inr (), importedColumn r)"
    and "tableName (importedColumn r) = getProp r ''TABLE_NAME''"
    and "columnName (importedColumn r) = getProp r ''COLUMN_NAME''"
  using assms by (simp_all add: importedColumn_def)

lemma import_result:
  "importFromRawData (Obj r) newColumn = (Inr u, c) \<Longrightarrow>
     assertColumnMetadataRaw (Obj r) = Inr () \<and> c = importedColumn r"
  by (cases "assertColumnMetadataRaw (Obj r)") (auto simp: importedColumn_def)

text \<open>Whether the table was there or has just been created, the turn leaves under the
  table's name the table with the column added.\<close>

lemma addRow_valid:
  assumes "assertColumnMetadataRaw (Obj r) = Inr ()"
  shows "addRow r db =
     Inr (db\<lparr> tables := Map_set (getProp r ''TABLE_NAME'')
                 (addColumn (case Map_get (tables db) (getProp r ''TABLE_NAME'') of
                               None \<Rightarrow> emptyTable (getProp r ''TABLE_NAME'')
                             | Some t \<Rightarrow> t)
                            (importedColumn r))
                 (tables db) \<rparr>)"
  unfolding addRow_def import_valid(1) [OF assms]
  by (simp add: Let_def addTable_def emptyTable_def Map_set_Map_set import_valid(2) [OF assms]
        split: option.splits)

lemma addRow_result:
  assumes "addRow r db = Inr db'"
  shows "assertColumnMetadataRaw (Obj r) = Inr ()"
proof (cases "assertColumnMetadataRaw (Obj r)")
  case (Inl e)
  with assms show ?thesis by (simp add: addRow_def)
next
  case (Inr u)
  then show ?thesis by simp
qed

lemma tableInvariant_addColumn:
  "tableInvariant t \<Longrightarrow> tableName c = table_tableName t \<Longrightarrow> tableInvariant (addColumn t c)"
  by (simp add: tableInvariant_def addColumn_def list_all_Map_set)

lemma addRow_invariant:
  assumes "addRow r db = Inr db'" and "databaseInvariant db"
  shows "databaseInvariant db'"
proof -
  let ?tn = "getProp r ''TABLE_NAME''"
  let ?t = "case Map_get (tables db) ?tn of None \<Rightarrow> emptyTable ?tn | Some t \<Rightarrow> t"
  have v: "assertColumnMetadataRaw (Obj r) = Inr ()" by (rule addRow_result [OF assms(1)])
  have t: "table_tableName ?t = ?tn \<and> tableInvariant ?t"
  proof (cases "Map_get (tables db) ?tn")
    case None
    then show ?thesis by (simp add: emptyTable_def tableInvariant_def)
  next
    case (Some t)
    then have "(?tn, t) \<in> set (tables db)" by (rule Map_get_in_set)
    with assms(2) Some show ?thesis
      by (auto simp: databaseInvariant_def list_all_iff)
  qed
  then have "tableInvariant (addColumn ?t (importedColumn r))"
    by (simp add: tableInvariant_addColumn import_valid(2) [OF v])
  moreover have "table_tableName (addColumn ?t (importedColumn r)) = ?tn"
    using t by (simp add: addColumn_def)
  ultimately have "list_all (\<lambda>(k, t). table_tableName t = k \<and> tableInvariant t)
      (Map_set ?tn (addColumn ?t (importedColumn r)) (tables db))"
    using assms(2) by (intro list_all_Map_set) (simp_all add: databaseInvariant_def)
  moreover have "tables db' = Map_set ?tn (addColumn ?t (importedColumn r)) (tables db)"
    using assms(1) unfolding addRow_valid [OF v] by auto
  ultimately show ?thesis by (simp add: databaseInvariant_def)
qed

lemma addRows_invariant:
  "addRows rs db = Inr db' \<Longrightarrow> databaseInvariant db \<Longrightarrow> databaseInvariant db'"
proof (induction rs arbitrary: db)
  case Nil
  then show ?case by simp
next
  case (Cons r rs)
  from Cons.prems(1) obtain db1 where s: "addRow r db = Inr db1" "addRows rs db1 = Inr db'"
    by (auto split: sum.splits)
  from addRow_invariant [OF s(1) Cons.prems(2)] have "databaseInvariant db1" .
  from Cons.IH [OF s(2) this] show ?case .
qed

lemma exampleRow2_valid: "assertColumnMetadataRaw (Obj exampleRow2) = Inr ()"
  by code_simp

section \<open>Facts about JSON texts\<close>









section \<open>Facts about decimal numbers\<close>











































section \<open>Facts about the statement of a table of validated columns\<close>

text \<open>A column imported from a row that validates has strings where the generator calls
  string methods, and a default that is a string or \<^verbatim>\<open>null\<close>.\<close>

lemma imported_fields:
  assumes "assertColumnMetadataRaw (Obj r) = Inr ()"
  shows "dataType (importedColumn r) = getProp r ''DATA_TYPE''"
    and "extra (importedColumn r) = getProp r ''EXTRA''"
    and "columnComment (importedColumn r) = getProp r ''COLUMN_COMMENT''"
    and "columnDefault (importedColumn r) = getProp r ''COLUMN_DEFAULT''"
    and "columnType (importedColumn r) = getProp r ''COLUMN_TYPE''"
    and "isNullable (importedColumn r) = getProp r ''IS_NULLABLE''"
  using assms by (simp_all add: importedColumn_def)

lemma imported_shapes:
  assumes "assertColumnMetadataRaw (Obj r) = Inr ()"
  shows "typeof (dataType (importedColumn r)) = ''string''"
    and "typeof (extra (importedColumn r)) = ''string''"
    and "typeof (columnComment (importedColumn r)) = ''string''"
    and "columnDefault (importedColumn r) = Null \<or>
         typeof (columnDefault (importedColumn r)) = ''string''"
proof -
  from assms have "allFieldsMatch r" using assert_ok_iff by blast
  then have m: "matchesShape ShString (getProp r ''DATA_TYPE'')"
    "matchesShape ShString (getProp r ''EXTRA'')"
    "matchesShape ShString (getProp r ''COLUMN_COMMENT'')"
    "matchesShape ShNullableString (getProp r ''COLUMN_DEFAULT'')"
    by (simp_all add: allFieldsMatch_def declaredShape_def)
  note f = imported_fields [OF assms]
  show "typeof (dataType (importedColumn r)) = ''string''"
    unfolding f using m(1) by (cases "getProp r ''DATA_TYPE''") simp_all
  show "typeof (extra (importedColumn r)) = ''string''"
    unfolding f using m(2) by (cases "getProp r ''EXTRA''") simp_all
  show "typeof (columnComment (importedColumn r)) = ''string''"
    unfolding f using m(3) by (cases "getProp r ''COLUMN_COMMENT''") simp_all
  show "columnDefault (importedColumn r) = Null \<or>
        typeof (columnDefault (importedColumn r)) = ''string''"
    unfolding f using m(4) by (cases "getProp r ''COLUMN_DEFAULT''") simp_all
qed

lemma columnDefinitionLine_ok:
  assumes "typeof (dataType c) = ''string''" and "typeof (extra c) = ''string''"
    and "typeof (columnComment c) = ''string''"
    and "columnDefault c = Null \<or> typeof (columnDefault c) = ''string''"
  shows "\<exists>l. columnDefinitionLine c = Inr l"
proof -
  from assms(1) obtain dt where dt: "dataType c = Str dt" using typeof_string by blast
  from assms(2) obtain e where e: "extra c = Str e" using typeof_string by blast
  from assms(3) obtain cm where cm: "columnComment c = Str cm" using typeof_string by blast
  have d: "columnDefault c \<noteq> Null \<Longrightarrow> \<exists>v. formatDefaultValue c = Inr v"
  proof -
    assume "columnDefault c \<noteq> Null"
    with assms(4) obtain d where "columnDefault c = Str d" using typeof_string by blast
    from formatDefaultValue_cases [OF dt this] show ?thesis by blast
  qed
  show ?thesis
  proof (cases "columnDefault c = Null")
    case True
    then show ?thesis
      by (simp add: columnDefinitionLine_def Let_def isAutoIncrement_def e cm
            escapeString_sqlEscaped)
  next
    case False
    from d [OF this] obtain v where "formatDefaultValue c = Inr v" by blast
    with False show ?thesis
      by (simp add: columnDefinitionLine_def Let_def isAutoIncrement_def e cm
            escapeString_sqlEscaped)
  qed
qed

lemma collectColumns_ok:
  "\<forall>c \<in> set cs. \<exists>l. columnDefinitionLine c = Inr l \<Longrightarrow> \<exists>parts. collectColumns cs acc = Inr parts"
proof (induction cs arbitrary: acc)
  case Nil
  show ?case by simp
next
  case (Cons c cs)
  from Cons.prems obtain l where l: "columnDefinitionLine c = Inr l" by auto
  from Cons.prems have rest: "\<forall>c \<in> set cs. \<exists>l. columnDefinitionLine c = Inr l" by simp
  define acc2 where "acc2 =
     (let acc1 = acc\<lparr> columnDefinitions := columnDefinitions acc @ [l] \<rparr>;
          quoted = ''`'' @ ToString (columnName c) @ ''`''
      in (if isPrimaryKey c then acc1\<lparr> primaryKeys := primaryKeys acc1 @ [quoted] \<rparr>
          else if columnKey c = Str ''UNI'' then acc1\<lparr> uniqueKeys := uniqueKeys acc1 @ [quoted] \<rparr>
          else if columnKey c = Str ''MUL'' then acc1\<lparr> indexes := indexes acc1 @ [quoted] \<rparr>
          else acc1))"
  have "collectColumns (c # cs) acc = collectColumns cs acc2"
    using l by (simp add: acc2_def Let_def)
  with Cons.IH [OF rest, of acc2] show ?case by simp
qed

lemma tableOptionsText_ok:
  assumes "\<not> truthy (comment options) \<or> typeof (comment options) = ''string''"
  shows "\<exists>rest. tableOptionsText first options = Inr rest"
proof (cases "truthy (comment options)")
  case True
  with assms obtain s where "comment options = Str s" using typeof_string by blast
  with True show ?thesis
    by (simp add: tableOptionsText_def Let_def escapeString_sqlEscaped)
next
  case False
  then show ?thesis by (simp add: tableOptionsText_def Let_def)
qed

lemma generateCreateTableQuery_ok:
  assumes "getColumns this \<noteq> []"
    and "\<forall>c \<in> set (getColumns this). \<exists>l. columnDefinitionLine c = Inr l"
    and "\<not> truthy (comment options) \<or> typeof (comment options) = ''string''"
  shows "\<exists>q. generateCreateTableQuery this options = Inr q"
proof -
  from assms(1) obtain first others where cols: "getColumns this = first # others"
    by (cases "getColumns this") auto
  from collectColumns_ok [OF assms(2), of
      "\<lparr> columnDefinitions = [], primaryKeys = [], uniqueKeys = [], indexes = [] \<rparr>"]
  obtain parts where p: "collectColumns (first # others)
      \<lparr> columnDefinitions = [], primaryKeys = [], uniqueKeys = [], indexes = [] \<rparr> = Inr parts"
    unfolding cols by blast
  from tableOptionsText_ok [OF assms(3)] obtain rest where
    r: "tableOptionsText first options = Inr rest" by blast
  show ?thesis
    unfolding generateCreateTableQuery_def cols
    by (simp only: list.case p r sum.case) blast
qed

text \<open>The statement of a table whose columns all come from rows that validate.\<close>

lemma validated_table_query:
  assumes "getColumns this \<noteq> []"
    and "\<forall>c \<in> set (getColumns this).
           \<exists>r. assertColumnMetadataRaw (Obj r) = Inr () \<and> c = importedColumn r"
    and "\<not> truthy (comment options) \<or> typeof (comment options) = ''string''"
  shows "\<exists>q. generateCreateTableQuery this options = Inr q"
proof -
  have "\<forall>c \<in> set (getColumns this). \<exists>l. columnDefinitionLine c = Inr l"
  proof
    fix c
    assume "c \<in> set (getColumns this)"
    with assms(2) obtain r where r: "assertColumnMetadataRaw (Obj r) = Inr ()"
      "c = importedColumn r" by blast
    show "\<exists>l. columnDefinitionLine c = Inr l"
      unfolding r(2) by (rule columnDefinitionLine_ok [OF imported_shapes [OF r(1)]])
  qed
  from generateCreateTableQuery_ok [OF assms(1) this assms(3)] show ?thesis .
qed

section \<open>Claims about classification\<close>

text \<open>
  C1 (as amended). For every column whose lower-cased data type contains \<^verbatim>\<open>bigint\<close> and
  whose lower-cased column type is not \<^verbatim>\<open>tinyint(1)\<close>, classification raises the error
  \<^verbatim>\<open>bigint not supported\<close>, whatever the column's name and other fields are; and that
  error is never one the row validator raises. (With column type \<^verbatim>\<open>tinyint(1)\<close> the
  classifier answers \<^verbatim>\<open>bit\<close> before it looks at the data type.)
\<close>

theorem bigint_raises_unless_tinyint1:
  assumes "dataType c = Str dt" and "str_includes (toLowerCase dt) ''bigint''"
    and "columnType c = Str ct" and "toLowerCase ct \<noteq> ''tinyint(1)''"
  shows "detectFieldTypeByColumnType c = Inl (Error ''bigint not supported'') \<and>
         assertColumnMetadataRaw raw \<noteq> Inl (Error ''bigint not supported'')"
proof
  show "detectFieldTypeByColumnType c = Inl (Error ''bigint not supported'')"
    using assms
    by (simp add: detectFieldTypeByColumnType_def hasBooleanDataType_def hasIntegerDataType_def)
  show "assertColumnMetadataRaw raw \<noteq> Inl (Error ''bigint not supported'')"
  proof
    assume "assertColumnMetadataRaw raw = Inl (Error ''bigint not supported'')"
    from assert_error_forms [OF this] show False by auto
  qed
qed

theorem bigint_raises_unless_tinyint1_witness:
  "dataType (newColumn\<lparr>dataType := Str ''BIGINT'', columnType := Str ''bigint(20) unsigned''\<rparr>)
     = Str ''BIGINT'' \<and>
   str_includes (toLowerCase ''BIGINT'') ''bigint'' \<and>
   toLowerCase ''bigint(20) unsigned'' \<noteq> ''tinyint(1)'' \<and>
   detectFieldTypeByColumnType
     (newColumn\<lparr>dataType := Str ''BIGINT'', columnType := Str ''bigint(20) unsigned''\<rparr>)
     = Inl (Error ''bigint not supported'') \<and>
   assertColumnMetadataRaw (Prim Null) \<noteq> Inl (Error ''bigint not supported'')"
  using bigint_raises_unless_tinyint1
    [of "newColumn\<lparr>dataType := Str ''BIGINT'', columnType := Str ''bigint(20) unsigned''\<rparr>"
        "''BIGINT''" "''bigint(20) unsigned''" "Prim Null"]
  by (simp add: toLowerCase_def toLowerChar_def)

text \<open>C1 as stated fails: data type \<^verbatim>\<open>bigint\<close> with column type \<^verbatim>\<open>tinyint(1)\<close> is classified
  as \<^verbatim>\<open>bit\<close> and nothing is raised.\<close>

theorem bigint_tinyint1_counterexample:
  "str_includes (toLowerCase ''bigint'') ''bigint'' \<and>
   detectFieldTypeByColumnType
     (newColumn\<lparr>dataType := Str ''bigint'', columnType := Str ''tinyint(1)''\<rparr>) = Inr ''bit''"
  by (simp add: detectFieldTypeByColumnType_def hasBooleanDataType_def hasIntegerDataType_def
      newColumn_def toLowerCase_def toLowerChar_def)

text \<open>
  C10 (as amended). Integer detection is a substring test. For every column whose
  lower-cased data type contains \<^verbatim>\<open>int\<close> but not \<^verbatim>\<open>bigint\<close>, whose lower-cased column
  type is not \<^verbatim>\<open>tinyint(1)\<close> and whose lower-cased name does not match
  \<^verbatim>\<open>^is_|_is_|^has_\<close>, classification returns \<^verbatim>\<open>integer\<close>; the data type \<^verbatim>\<open>point\<close> is such
  a one. The column type and the name are compared after lower-casing, as the data type
  is.
\<close>

theorem int_substring_is_integer:
  assumes "dataType c = Str dt" and "str_includes (toLowerCase dt) ''int''"
    and "\<not> str_includes (toLowerCase dt) ''bigint''"
    and "columnType c = Str ct" and "toLowerCase ct \<noteq> ''tinyint(1)''"
    and "columnName c = Str cn" and "\<not> booleanNamePattern (toLowerCase cn)"
  shows "detectFieldTypeByColumnType c = Inr ''integer''"
  using assms
  by (simp add: detectFieldTypeByColumnType_def hasBooleanDataType_def hasIntegerDataType_def
      integerPattern_int)

theorem int_substring_is_integer_witness:
  "str_includes (toLowerCase ''point'') ''int'' \<and>
   \<not> str_includes (toLowerCase ''point'') ''bigint'' \<and>
   toLowerCase ''point'' \<noteq> ''tinyint(1)'' \<and>
   \<not> booleanNamePattern (toLowerCase ''location'') \<and>
   detectFieldTypeByColumnType
     (newColumn\<lparr>dataType := Str ''point'', columnType := Str ''point'',
        columnName := Str ''location''\<rparr>) = Inr ''integer''"
  using int_substring_is_integer
    [of "newColumn\<lparr>dataType := Str ''point'', columnType := Str ''point'',
           columnName := Str ''location''\<rparr>" "''point''" "''point''" "''location''"]
  by (simp add: toLowerCase_def toLowerChar_def booleanNamePattern_def startsWith_def)

text \<open>C10 as stated fails: with the column type and the name taken as they are, a column
  of data type \<^verbatim>\<open>int\<close> and column type \<^verbatim>\<open>TINYINT(1)\<close>, and a column of data type \<^verbatim>\<open>int\<close>
  named \<^verbatim>\<open>IS_ACTIVE\<close>, meet every condition of the claim, and both are classified as
  \<^verbatim>\<open>bit\<close>.\<close>

theorem upper_case_fields_counterexample:
  "str_includes (toLowerCase ''int'') ''int'' \<and>
   \<not> str_includes (toLowerCase ''int'') ''bigint'' \<and>
   ''TINYINT(1)'' \<noteq> ''tinyint(1)'' \<and>
   \<not> booleanNamePattern ''qty'' \<and>
   detectFieldTypeByColumnType
     (newColumn\<lparr>dataType := Str ''int'', columnType := Str ''TINYINT(1)'',
        columnName := Str ''qty''\<rparr>) = Inr ''bit'' \<and>
   ''int(11)'' \<noteq> ''tinyint(1)'' \<and>
   \<not> booleanNamePattern ''IS_ACTIVE'' \<and>
   detectFieldTypeByColumnType
     (newColumn\<lparr>dataType := Str ''int'', columnType := Str ''int(11)'',
        columnName := Str ''IS_ACTIVE''\<rparr>) = Inr ''bit''"
  by code_simp

section \<open>Claims about validation and import\<close>

text \<open>
  C2 (as amended). Validation of a row succeeds if and only if every one of the thirteen
  required fields is present and every one of the twenty-two declared fields, read from
  the row, matches its declared shape, where a field that is absent reads as
  \<^verbatim>\<open>undefined\<close> and so matches no shape; and removing any required field from a row that
  validates makes validation fail naming exactly that field.
\<close>

theorem validate_iff_all_fields_match:
  "(assertColumnMetadataRaw (Obj r) = Inr () \<longleftrightarrow> requiredPresent r \<and> allFieldsMatch r) \<and>
   (assertColumnMetadataRaw (Obj r) = Inr () \<longrightarrow> k \<in> set requiredKeys \<longrightarrow>
      assertColumnMetadataRaw (Obj (removeKey k r)) =
        Inl (Error (''Missing required field: '' @ k)))"
  using assert_ok_iff assert_removed by blast

theorem validate_iff_all_fields_match_witness:
  "requiredPresent exampleRow \<and> allFieldsMatch exampleRow \<and>
   assertColumnMetadataRaw (Obj exampleRow) = Inr () \<and>
   ''TABLE_NAME'' \<in> set requiredKeys \<and>
   assertColumnMetadataRaw (Obj (removeKey ''TABLE_NAME'' exampleRow)) =
     Inl (Error ''Missing required field: TABLE_NAME'')"
  using validate_iff_all_fields_match [of exampleRow "''TABLE_NAME''"] exampleRow_valid
  by (simp add: requiredKeys_def)

text \<open>C2 as stated fails: the example row without its \<^verbatim>\<open>COLUMN_DEFAULT\<close> field has every
  required field, and every field it has matches its shape, yet validation rejects it.\<close>

theorem absent_optional_field_counterexample:
  "requiredPresent (removeKey ''COLUMN_DEFAULT'' exampleRow) \<and>
   presentFieldsMatch (removeKey ''COLUMN_DEFAULT'' exampleRow) \<and>
   assertColumnMetadataRaw (Obj (removeKey ''COLUMN_DEFAULT'' exampleRow)) =
     Inl (Error ''Invalid COLUMN_DEFAULT: Expected string or null, got undefined'')"
  by code_simp

text \<open>
  C9. Import is atomic: the validator runs before any field is assigned, so whenever
  validation of the raw input fails, the import fails with the validator's error and
  every field of the column is as it was before the call.
\<close>

theorem import_atomic:
  assumes "assertColumnMetadataRaw raw = Inl e"
  shows "importFromRawData raw this = (Inl e, this)"
  using assms by simp

theorem import_atomic_witness:
  "assertColumnMetadataRaw (Obj (removeKey ''DATA_TYPE'' exampleRow)) =
     Inl (Error ''Missing required field: DATA_TYPE'') \<and>
   importFromRawData (Obj (removeKey ''DATA_TYPE'' exampleRow))
       (newColumn\<lparr>columnName := Str ''old''\<rparr>) =
     (Inl (Error ''Missing required field: DATA_TYPE''), newColumn\<lparr>columnName := Str ''old''\<rparr>)"
proof -
  have h: "assertColumnMetadataRaw (Obj (removeKey ''DATA_TYPE'' exampleRow)) =
     Inl (Error ''Missing required field: DATA_TYPE'')"
    using assert_removed [OF exampleRow_valid, of "''DATA_TYPE''"] by (simp add: requiredKeys_def)
  show ?thesis
    using h import_atomic [OF h, of "newColumn\<lparr>columnName := Str ''old''\<rparr>"] by simp
qed

section \<open>Claims about CREATE TABLE generation\<close>

text \<open>
  C4. In the generated CREATE TABLE text the format of a default is decided by the
  lower-cased data type. For \<^verbatim>\<open>char\<close>, \<^verbatim>\<open>varchar\<close>, \<^verbatim>\<open>text\<close>, \<^verbatim>\<open>enum\<close>, \<^verbatim>\<open>set\<close> the default is
  put in single quotes with quotes and backslashes doubled; for \<^verbatim>\<open>timestamp\<close> and
  \<^verbatim>\<open>datetime\<close> with a default that is \<^verbatim>\<open>CURRENT_TIMESTAMP\<close> in any letter case the keyword is
  written; for \<^verbatim>\<open>blob\<close> and \<^verbatim>\<open>binary\<close> it is \<^verbatim>\<open>x'<raw>'\<close>; otherwise it is the raw text.
  The column's line carries it after \<^verbatim>\<open>DEFAULT\<close>, and the line is part of every statement
  generated for a table holding the column. For a table whose columns all come from rows
  that validate (and a table comment, when one is given, that is a string) the generator
  does return a statement, and the statement contains the column's name, type, nullability
  and \<^verbatim>\<open>DEFAULT\<close> followed by the default so formatted.
\<close>

theorem default_format_by_data_type:
  assumes "dataType column = Str dt" and "columnDefault column = Str d"
  shows
    "(toLowerCase dt \<in> set [''char'', ''varchar'', ''text'', ''enum'', ''set''] \<longrightarrow>
        formatDefaultValue column = Inr (Str ([CHR 0x27] @ sqlEscaped d @ [CHR 0x27]))) \<and>
     (toLowerCase dt \<in> set [''timestamp'', ''datetime''] \<and> toUpperCase d = ''CURRENT_TIMESTAMP'' \<longrightarrow>
        formatDefaultValue column = Inr (Str ''CURRENT_TIMESTAMP'')) \<and>
     (toLowerCase dt \<in> set [''blob'', ''binary''] \<longrightarrow>
        formatDefaultValue column = Inr (Str (''x'' @ [CHR 0x27] @ d @ [CHR 0x27]))) \<and>
     (toLowerCase dt \<notin> set [''char'', ''varchar'', ''text'', ''enum'', ''set'', ''blob'', ''binary''] \<and>
      \<not> (toLowerCase dt \<in> set [''timestamp'', ''datetime''] \<and> toUpperCase d = ''CURRENT_TIMESTAMP'') \<longrightarrow>
        formatDefaultValue column = Inr (Str d)) \<and>
     (\<forall>l. columnDefinitionLine column = Inr l \<longrightarrow>
        (\<exists>v suffix. formatDefaultValue column = Inr (Str v) \<and>
           l = ''`'' @ ToString (columnName column) @ ''` '' @ ToString (columnType column) @
               (if allowsNull column then [] else '' NOT NULL'') @
               '' DEFAULT '' @ v @ suffix)) \<and>
     (\<forall>this options q.
        generateCreateTableQuery this options = Inr q \<and> column \<in> set (getColumns this) \<longrightarrow>
        (\<exists>l. columnDefinitionLine column = Inr l \<and> str_includes q l)) \<and>
     (\<forall>this options.
        column \<in> set (getColumns this) \<and>
        (\<forall>c \<in> set (getColumns this).
           \<exists>r. assertColumnMetadataRaw (Obj r) = Inr () \<and> c = importedColumn r) \<and>
        (\<not> truthy (comment options) \<or> typeof (comment options) = ''string'') \<longrightarrow>
        (\<exists>q v. generateCreateTableQuery this options = Inr q \<and>
           formatDefaultValue column = Inr (Str v) \<and>
           str_includes q
             (''`'' @ ToString (columnName column) @ ''` '' @ ToString (columnType column) @
              (if allowsNull column then [] else '' NOT NULL'') @ '' DEFAULT '' @ v)))"
proof -
  note f = formatDefaultValue_cases [OF assms]
  have line: "\<exists>v suffix. formatDefaultValue column = Inr (Str v) \<and>
           l = ''`'' @ ToString (columnName column) @ ''` '' @ ToString (columnType column) @
               (if allowsNull column then [] else '' NOT NULL'') @
               '' DEFAULT '' @ v @ suffix"
    if l: "columnDefinitionLine column = Inr l" for l
  proof -
    have "columnDefault column \<noteq> Null" using assms(2) by simp
    from columnDefinitionLine_default [OF this l] obtain v suffix where
      v: "formatDefaultValue column = Inr v"
         "l = ''`'' @ ToString (columnName column) @ ''` '' @ ToString (columnType column) @
               (if allowsNull column then [] else '' NOT NULL'') @
               '' DEFAULT '' @ ToString v @ suffix" by blast
    from v(1) f obtain w where "v = Str w" by (metis Inr_inject)
    with v show ?thesis by auto
  qed
  have generated: "\<exists>q v. generateCreateTableQuery this options = Inr q \<and>
           formatDefaultValue column = Inr (Str v) \<and>
           str_includes q
             (''`'' @ ToString (columnName column) @ ''` '' @ ToString (columnType column) @
              (if allowsNull column then [] else '' NOT NULL'') @ '' DEFAULT '' @ v)"
    if h: "column \<in> set (getColumns this) \<and>
        (\<forall>c \<in> set (getColumns this).
           \<exists>r. assertColumnMetadataRaw (Obj r) = Inr () \<and> c = importedColumn r) \<and>
        (\<not> truthy (comment options) \<or> typeof (comment options) = ''string'')"
    for this options
  proof -
    from h have ne: "getColumns this \<noteq> []" by auto
    from h have valid: "\<forall>c \<in> set (getColumns this).
        \<exists>r. assertColumnMetadataRaw (Obj r) = Inr () \<and> c = importedColumn r" by blast
    from h have opt: "\<not> truthy (comment options) \<or> typeof (comment options) = ''string''"
      by blast
    from validated_table_query [OF ne valid opt] obtain q where
      q: "generateCreateTableQuery this options = Inr q" by blast
    from h have "column \<in> set (getColumns this)" by blast
    from query_includes_line [OF q this] obtain l where
      l: "columnDefinitionLine column = Inr l" "str_includes q l" by blast
    from line [OF l(1)] obtain v suffix where
      v: "formatDefaultValue column = Inr (Str v)"
         "l = ''`'' @ ToString (columnName column) @ ''` '' @ ToString (columnType column) @
               (if allowsNull column then [] else '' NOT NULL'') @
               '' DEFAULT '' @ v @ suffix" by blast
    let ?x = "''`'' @ ToString (columnName column) @ ''` '' @ ToString (columnType column) @
              (if allowsNull column then [] else '' NOT NULL'') @ '' DEFAULT '' @ v"
    have "l = [] @ ?x @ suffix" unfolding v(2) by simp
    then have "str_includes l ?x" unfolding str_includes_iff by blast
    from str_includes_trans [OF l(2) this] q v(1) show ?thesis by blast
  qed
  show ?thesis
  proof (intro conjI allI impI)
    show "formatDefaultValue column = Inr (Str ([CHR 0x27] @ sqlEscaped d @ [CHR 0x27]))"
      if "toLowerCase dt \<in> set [''char'', ''varchar'', ''text'', ''enum'', ''set'']"
      using that f by simp
    show "formatDefaultValue column = Inr (Str ''CURRENT_TIMESTAMP'')"
      if "toLowerCase dt \<in> set [''timestamp'', ''datetime''] \<and> toUpperCase d = ''CURRENT_TIMESTAMP''"
      using that f by auto
    show "formatDefaultValue column = Inr (Str (''x'' @ [CHR 0x27] @ d @ [CHR 0x27]))"
      if "toLowerCase dt \<in> set [''blob'', ''binary'']"
      using that f by auto
    show "formatDefaultValue column = Inr (Str d)"
      if "toLowerCase dt \<notin> set [''char'', ''varchar'', ''text'', ''enum'', ''set'', ''blob'', ''binary''] \<and>
          \<not> (toLowerCase dt \<in> set [''timestamp'', ''datetime''] \<and> toUpperCase d = ''CURRENT_TIMESTAMP'')"
      using that f by auto
    show "\<exists>v suffix. formatDefaultValue column = Inr (Str v) \<and>
           l = ''`'' @ ToString (columnName column) @ ''` '' @ ToString (columnType column) @
               (if allowsNull column then [] else '' NOT NULL'') @
               '' DEFAULT '' @ v @ suffix"
      if "columnDefinitionLine column = Inr l" for l
      using that by (rule line)
    show "\<exists>l. columnDefinitionLine column = Inr l \<and> str_includes q l"
      if "generateCreateTableQuery this options = Inr q \<and> column \<in> set (getColumns this)"
      for this options q
      using that query_includes_line by blast
    show "\<exists>q v. generateCreateTableQuery this options = Inr q \<and>
           formatDefaultValue column = Inr (Str v) \<and>
           str_includes q
             (''`'' @ ToString (columnName column) @ ''` '' @ ToString (columnType column) @
              (if allowsNull column then [] else '' NOT NULL'') @ '' DEFAULT '' @ v)"
      if "column \<in> set (getColumns this) \<and>
        (\<forall>c \<in> set (getColumns this).
           \<exists>r. assertColumnMetadataRaw (Obj r) = Inr () \<and> c = importedColumn r) \<and>
        (\<not> truthy (comment options) \<or> typeof (comment options) = ''string'')"
      for this options
      using that by (rule generated)
  qed
qed

text \<open>The examples of the specification: in the statement the generator returns for the
  table of the two example rows, default \<^verbatim>\<open>0\<close> of the \<^verbatim>\<open>varchar\<close> column is written
  \<^verbatim>\<open>DEFAULT '0'\<close> and default \<^verbatim>\<open>current_timestamp\<close> of the \<^verbatim>\<open>timestamp\<close> column is written
  \<^verbatim>\<open>DEFAULT CURRENT_TIMESTAMP\<close>.\<close>

lemma flagTable_query:
  "generateCreateTableQuery flagTable noOptions =
     Inr (''CREATE TABLE `t` (\<newline>  `flag` varchar(10) DEFAULT '' @ [CHR 0x27] @ ''0'' @ [CHR 0x27] @
          ''\<newline>) DEFAULT CHARSET=utf8mb4 COLLATE=utf8mb4_unicode_ci;'')"
  by code_simp

lemma defaultsTable_query:
  "generateCreateTableQuery defaultsTable noOptions =
     Inr ''CREATE TABLE `t` (\<newline>  `flag` varchar(10) DEFAULT '0',\<newline>  `created` timestamp NOT NULL DEFAULT CURRENT_TIMESTAMP\<newline>) DEFAULT CHARSET=utf8mb4 COLLATE=utf8mb4_general_ci;''"
  by code_simp

lemma defaultsTable_valid:
  "assertColumnMetadataRaw (Obj flagRow) = Inr ()"
  "assertColumnMetadataRaw (Obj stampRow) = Inr ()"
  by code_simp+

lemma defaultsTable_props:
  "getProp flagRow ''DATA_TYPE'' = Str ''varchar''"
  "getProp flagRow ''COLUMN_DEFAULT'' = Str ''0''"
  "getProp flagRow ''COLUMN_NAME'' = Str ''flag''"
  "getProp flagRow ''COLUMN_TYPE'' = Str ''varchar(10)''"
  "getProp flagRow ''IS_NULLABLE'' = Str ''YES''"
  "getProp stampRow ''DATA_TYPE'' = Str ''timestamp''"
  "getProp stampRow ''COLUMN_DEFAULT'' = Str ''current_timestamp''"
  "getProp stampRow ''COLUMN_NAME'' = Str ''created''"
  "getProp stampRow ''COLUMN_TYPE'' = Str ''timestamp''"
  "getProp stampRow ''IS_NULLABLE'' = Str ''NO''"
  by code_simp+

lemma defaultsTable_fields:
  "dataType (importedColumn flagRow) = Str ''varchar''"
  "columnDefault (importedColumn flagRow) = Str ''0''"
  "columnName (importedColumn flagRow) = Str ''flag''"
  "columnType (importedColumn flagRow) = Str ''varchar(10)''"
  "allowsNull (importedColumn flagRow)"
  "dataType (importedColumn stampRow) = Str ''timestamp''"
  "columnDefault (importedColumn stampRow) = Str ''current_timestamp''"
  "columnName (importedColumn stampRow) = Str ''created''"
  "columnType (importedColumn stampRow) = Str ''timestamp''"
  "\<not> allowsNull (importedColumn stampRow)"
  by (simp_all add: allowsNull_def defaultsTable_props
        imported_fields [OF defaultsTable_valid(1)] imported_fields [OF defaultsTable_valid(2)]
        import_valid(3) [OF defaultsTable_valid(1)] import_valid(3) [OF defaultsTable_valid(2)])

lemma defaultsTable_rows:
  "getColumns defaultsTable = [importedColumn flagRow, importedColumn stampRow]"
  "new_MySQLTable (Str ''t'') [flagRow, stampRow] = Inr defaultsTable"
proof -
  have cols: "columns defaultsTable =
      [(Str ''flag'', importedColumn flagRow), (Str ''created'', importedColumn stampRow)]"
    by (simp add: defaultsTable_def addColumn_def emptyTable_def defaultsTable_fields)
  show "getColumns defaultsTable = [importedColumn flagRow, importedColumn stampRow]"
    by (simp add: getColumns_def Map_values_def cols)
  have "importColumns [flagRow, stampRow] [] =
      Inr [(Str ''flag'', importedColumn flagRow), (Str ''created'', importedColumn stampRow)]"
    unfolding importColumns.simps import_valid(1) [OF defaultsTable_valid(1)]
      import_valid(1) [OF defaultsTable_valid(2)]
    by (simp add: defaultsTable_props)
  then show "new_MySQLTable (Str ''t'') [flagRow, stampRow] = Inr defaultsTable"
    by (simp add: new_MySQLTable_def defaultsTable_def addColumn_def emptyTable_def
          defaultsTable_fields)
qed

lemma defaultsTable_case:
  "toLowerCase ''varchar'' = ''varchar''" "toLowerCase ''timestamp'' = ''timestamp''"
  "toUpperCase ''current_timestamp'' = ''CURRENT_TIMESTAMP''" "sqlEscaped ''0'' = ''0''"
  by code_simp+

theorem default_format_by_data_type_witness:
  "assertColumnMetadataRaw (Obj flagRow) = Inr () \<and>
   assertColumnMetadataRaw (Obj stampRow) = Inr () \<and>
   new_MySQLTable (Str ''t'') [flagRow, stampRow] = Inr defaultsTable \<and>
   getColumns defaultsTable = [importedColumn flagRow, importedColumn stampRow] \<and>
   dataType (importedColumn flagRow) = Str ''varchar'' \<and>
   columnDefault (importedColumn flagRow) = Str ''0'' \<and>
   dataType (importedColumn stampRow) = Str ''timestamp'' \<and>
   columnDefault (importedColumn stampRow) = Str ''current_timestamp'' \<and>
   toLowerCase ''varchar'' \<in> set [''char'', ''varchar'', ''text'', ''enum'', ''set''] \<and>
   toLowerCase ''timestamp'' \<in> set [''timestamp'', ''datetime''] \<and>
   toUpperCase ''current_timestamp'' = ''CURRENT_TIMESTAMP'' \<and>
   comment noOptions = Undefined \<and>
   generateCreateTableQuery defaultsTable noOptions =
     Inr ''CREATE TABLE `t` (\<newline>  `flag` varchar(10) DEFAULT '0',\<newline>  `created` timestamp NOT NULL DEFAULT CURRENT_TIMESTAMP\<newline>) DEFAULT CHARSET=utf8mb4 COLLATE=utf8mb4_general_ci;'' \<and>
   formatDefaultValue (importedColumn flagRow) = Inr (Str ([CHR 0x27] @ ''0'' @ [CHR 0x27])) \<and>
   formatDefaultValue (importedColumn stampRow) = Inr (Str ''CURRENT_TIMESTAMP'') \<and>
   str_includes ''CREATE TABLE `t` (\<newline>  `flag` varchar(10) DEFAULT '0',\<newline>  `created` timestamp NOT NULL DEFAULT CURRENT_TIMESTAMP\<newline>) DEFAULT CHARSET=utf8mb4 COLLATE=utf8mb4_general_ci;''
     (''`flag` varchar(10) DEFAULT '' @ [CHR 0x27] @ ''0'' @ [CHR 0x27]) \<and>
   str_includes ''CREATE TABLE `t` (\<newline>  `flag` varchar(10) DEFAULT '0',\<newline>  `created` timestamp NOT NULL DEFAULT CURRENT_TIMESTAMP\<newline>) DEFAULT CHARSET=utf8mb4 COLLATE=utf8mb4_general_ci;''
     ''`created` timestamp NOT NULL DEFAULT CURRENT_TIMESTAMP''"
proof -
  note r = defaultsTable_valid defaultsTable_rows
  note c = defaultsTable_fields
  note t1 = default_format_by_data_type [OF c(1) c(2)]
  note t2 = default_format_by_data_type [OF c(6) c(7)]
  let ?q = "''CREATE TABLE `t` (\<newline>  `flag` varchar(10) DEFAULT '0',\<newline>  `created` timestamp NOT NULL DEFAULT CURRENT_TIMESTAMP\<newline>) DEFAULT CHARSET=utf8mb4 COLLATE=utf8mb4_general_ci;''"
  have valid: "\<forall>c \<in> set (getColumns defaultsTable).
      \<exists>r. assertColumnMetadataRaw (Obj r) = Inr () \<and> c = importedColumn r"
    unfolding r(3) using r(1) r(2) by auto
  have opt: "comment noOptions = Undefined" by (simp add: noOptions_def)
  then have opt': "\<not> truthy (comment noOptions) \<or> typeof (comment noOptions) = ''string''"
    by simp
  have m1: "importedColumn flagRow \<in> set (getColumns defaultsTable)" unfolding r(3) by simp
  have m2: "importedColumn stampRow \<in> set (getColumns defaultsTable)" unfolding r(3) by simp
  have a1: "formatDefaultValue (importedColumn flagRow) = Inr (Str ([CHR 0x27] @ ''0'' @ [CHR 0x27]))"
    using t1 defaultsTable_case by simp
  have a2: "formatDefaultValue (importedColumn stampRow) = Inr (Str ''CURRENT_TIMESTAMP'')"
    using t2 defaultsTable_case by simp
  from t1 m1 valid opt' obtain q1 v1 where
    g1: "generateCreateTableQuery defaultsTable noOptions = Inr q1"
        "formatDefaultValue (importedColumn flagRow) = Inr (Str v1)"
        "str_includes q1
           (''`'' @ ToString (columnName (importedColumn flagRow)) @ ''` '' @
            ToString (columnType (importedColumn flagRow)) @
            (if allowsNull (importedColumn flagRow) then [] else '' NOT NULL'') @
            '' DEFAULT '' @ v1)" by blast
  from t2 m2 valid opt' obtain q2 v2 where
    g2: "generateCreateTableQuery defaultsTable noOptions = Inr q2"
        "formatDefaultValue (importedColumn stampRow) = Inr (Str v2)"
        "str_includes q2
           (''`'' @ ToString (columnName (importedColumn stampRow)) @ ''` '' @
            ToString (columnType (importedColumn stampRow)) @
            (if allowsNull (importedColumn stampRow) then [] else '' NOT NULL'') @
            '' DEFAULT '' @ v2)" by blast
  from g1(1) defaultsTable_query have q1: "q1 = ?q" by simp
  from g2(1) defaultsTable_query have q2: "q2 = ?q" by simp
  from g1(2) a1 have v1: "v1 = [CHR 0x27] @ ''0'' @ [CHR 0x27]" by simp
  from g2(2) a2 have v2: "v2 = ''CURRENT_TIMESTAMP''" by simp
  have s1: "str_includes ?q (''`flag` varchar(10) DEFAULT '' @ [CHR 0x27] @ ''0'' @ [CHR 0x27])"
    using g1(3) unfolding q1 v1 c by simp
  have s2: "str_includes ?q ''`created` timestamp NOT NULL DEFAULT CURRENT_TIMESTAMP''"
    using g2(3) unfolding q2 v2 c by simp
  from g1(1) have gq: "generateCreateTableQuery defaultsTable noOptions = Inr ?q"
    unfolding q1 .
  have k: "toLowerCase ''varchar'' \<in> set [''char'', ''varchar'', ''text'', ''enum'', ''set'']"
    "toLowerCase ''timestamp'' \<in> set [''timestamp'', ''datetime'']"
    "toUpperCase ''current_timestamp'' = ''CURRENT_TIMESTAMP''"
    by (simp_all add: defaultsTable_case)
  show ?thesis
    by (intro conjI r(1) r(2) r(4) r(3) c(1) c(2) c(6) c(7) k opt gq a1 a2 s1 s2)
qed

text \<open>
  C5. For every table with no columns, generating the CREATE TABLE statement raises the
  error \<^verbatim>\<open>Table <name> has no columns\<close> and yields no text; and whenever a statement is
  returned, the table has a column and the text begins with \<^verbatim>\<open>CREATE TABLE\<close> and ends
  with a semicolon.
\<close>

theorem empty_table_raises:
  assumes "getColumns this = []"
  shows "generateCreateTableQuery this options =
           Inl (Error (''Table '' @ ToString (table_tableName this) @ '' has no columns'')) \<and>
         (\<forall>that q. generateCreateTableQuery that options = Inr q \<longrightarrow>
            getColumns that \<noteq> [] \<and> prefix ''CREATE TABLE `'' q \<and> last q = CHR '';'')"
  using assms query_shape by (simp add: generateCreateTableQuery_def)

theorem empty_table_raises_witness:
  "getColumns (emptyTable (Str ''orders'')) = [] \<and>
   generateCreateTableQuery (emptyTable (Str ''orders'')) noOptions =
     Inl (Error ''Table orders has no columns'') \<and>
   getColumns flagTable \<noteq> []"
proof -
  have h: "getColumns (emptyTable (Str ''orders'')) = []"
    by (simp add: getColumns_def emptyTable_def Map_values_def)
  from empty_table_raises [OF h, of noOptions] flagTable_query
  show ?thesis using h by (auto simp: emptyTable_def)
qed

section \<open>Claims about the table model\<close>

text \<open>
  C6 (as amended). In the model that the renderers build from rows (for each row: import
  it, find the table of the row's table name or create it, add the column), every table
  is registered under its own name and every column a table holds has that name in its
  table-name field. The constructor of a table and \<^verbatim>\<open>addColumn\<close> do not look at the
  table name of what they store.
\<close>

theorem built_tables_hold_own_columns:
  assumes "buildDatabase first others = Inr db"
  shows "\<forall>(k, t) \<in> set (tables db). table_tableName t = k \<and>
           (\<forall>c \<in> set (getColumns t). tableName c = table_tableName t)"
proof -
  have "databaseInvariant (new_MySQLDatabase (getProp first ''TABLE_SCHEMA''))"
    by (simp add: databaseInvariant_def new_MySQLDatabase_def)
  with assms have "databaseInvariant db"
    unfolding buildDatabase_def by (rule addRows_invariant)
  then show ?thesis
    by (fastforce simp: databaseInvariant_def tableInvariant_def list_all_iff getColumns_def
          Map_values_def)
qed

lemma example_database:
  "buildDatabase exampleRow [exampleRow2] =
     Inr \<lparr> databaseName = Str ''shop'',
           tables = [(Str ''users'',
                      \<lparr> table_tableName = Str ''users'',
                        columns = [(Str ''id'', importedColumn exampleRow2)] \<rparr>)] \<rparr>"
  by code_simp

theorem built_tables_hold_own_columns_witness:
  "buildDatabase exampleRow [exampleRow2] =
     Inr \<lparr> databaseName = Str ''shop'',
           tables = [(Str ''users'',
                      \<lparr> table_tableName = Str ''users'',
                        columns = [(Str ''id'', importedColumn exampleRow2)] \<rparr>)] \<rparr> \<and>
   tableName (importedColumn exampleRow2) = Str ''users''"
  using built_tables_hold_own_columns [OF example_database] example_database
  by (simp add: getColumns_def Map_values_def)

text \<open>C6 as stated fails: a table named \<^verbatim>\<open>orders\<close> takes, by \<^verbatim>\<open>addColumn\<close> and by its
  constructor alike, a column whose table name is \<^verbatim>\<open>users\<close>.\<close>

theorem foreign_column_counterexample:
  "map tableName (getColumns (addColumn (emptyTable (Str ''orders'')) (importedColumn exampleRow)))
     = [Str ''users''] \<and>
   table_tableName (addColumn (emptyTable (Str ''orders'')) (importedColumn exampleRow))
     = Str ''orders'' \<and>
   (case new_MySQLTable (Str ''orders'') [exampleRow] of
      Inl e \<Rightarrow> []
    | Inr t \<Rightarrow> map (\<lambda>c. (table_tableName t, tableName c)) (getColumns t))
     = [(Str ''orders'', Str ''users'')]"
  by code_simp

text \<open>
  C8. Of two rows that validate and have the same table name and the same column name,
  added in order, the later row's column stands in the table where the earlier row's
  column stood, everything before and after it unchanged, so the table has as many
  columns after the second row as after the first; the same holds of \<^verbatim>\<open>addColumn\<close> for any
  two columns of one name.
\<close>

theorem last_write_wins:
  assumes "assertColumnMetadataRaw (Obj r1) = Inr ()" and "assertColumnMetadataRaw (Obj r2) = Inr ()"
    and "getProp r1 ''TABLE_NAME'' = getProp r2 ''TABLE_NAME''"
    and "getProp r1 ''COLUMN_NAME'' = getProp r2 ''COLUMN_NAME''"
  shows "(\<exists>db1 db2 t1 t2 pre post.
          addRows [r1] db = Inr db1 \<and> addRows [r1, r2] db = Inr db2 \<and>
          Map_get (tables db1) (getProp r1 ''TABLE_NAME'') = Some t1 \<and>
          Map_get (tables db2) (getProp r1 ''TABLE_NAME'') = Some t2 \<and>
          columns t1 = pre @ (getProp r1 ''COLUMN_NAME'', importedColumn r1) # post \<and>
          columns t2 = pre @ (getProp r1 ''COLUMN_NAME'', importedColumn r2) # post \<and>
          getProp r1 ''COLUMN_NAME'' \<notin> fst ` set pre \<and>
          getColumn t2 (getProp r1 ''COLUMN_NAME'') = Some (importedColumn r2) \<and>
          length (getColumns t2) = length (getColumns t1) \<and>
          map fst (tables db2) = map fst (tables db1)) \<and>
         (\<forall>t c1 c2. columnName c1 = columnName c2 \<longrightarrow>
            getColumn (addColumn (addColumn t c1) c2) (columnName c2) = Some c2 \<and>
            length (getColumns (addColumn (addColumn t c1) c2)) =
              length (getColumns (addColumn t c1)))"
proof -
  have direct: "getColumn (addColumn (addColumn t c1) c2) (columnName c2) = Some c2 \<and>
      length (getColumns (addColumn (addColumn t c1) c2)) = length (getColumns (addColumn t c1))"
    if "columnName c1 = columnName c2" for t c1 c2
    using that
    by (simp add: getColumn_def getColumns_def Map_values_def addColumn_def Map_get_set
          length_Map_set_again)
  let ?tn = "getProp r1 ''TABLE_NAME''"
  let ?cn = "getProp r1 ''COLUMN_NAME''"
  let ?t0 = "case Map_get (tables db) ?tn of None \<Rightarrow> emptyTable ?tn | Some t \<Rightarrow> t"
  let ?t1 = "addColumn ?t0 (importedColumn r1)"
  let ?db1 = "db\<lparr> tables := Map_set ?tn ?t1 (tables db) \<rparr>"
  let ?t2 = "addColumn ?t1 (importedColumn r2)"
  let ?db2 = "?db1\<lparr> tables := Map_set ?tn ?t2 (tables ?db1) \<rparr>"
  have s1: "addRow r1 db = Inr ?db1" by (rule addRow_valid [OF assms(1)])
  have g1: "Map_get (tables ?db1) ?tn = Some ?t1" by (simp add: Map_get_set)
  have s2: "addRow r2 ?db1 = Inr ?db2"
    unfolding addRow_valid [OF assms(2)] assms(3) [symmetric] g1 by simp
  have g2: "Map_get (tables ?db2) ?tn = Some ?t2" by (simp add: Map_get_set)
  have c1: "columns ?t1 = Map_set ?cn (importedColumn r1) (columns ?t0)"
    by (simp add: addColumn_def import_valid(3) [OF assms(1)])
  have c2: "columns ?t2 = Map_set ?cn (importedColumn r2) (columns ?t1)"
    by (simp add: addColumn_def import_valid(3) [OF assms(2)] assms(4))
  from Map_set_in_place [of ?cn "importedColumn r1" "columns ?t0" "importedColumn r2"]
  obtain pre post where p: "?cn \<notin> fst ` set pre"
    "Map_set ?cn (importedColumn r1) (columns ?t0) = pre @ (?cn, importedColumn r1) # post"
    "Map_set ?cn (importedColumn r2) (Map_set ?cn (importedColumn r1) (columns ?t0)) =
       pre @ (?cn, importedColumn r2) # post" by blast
  have k: "map fst (tables ?db2) = map fst (tables ?db1)"
    using Map_set_in_place [of ?tn ?t1 "tables db" ?t2] by auto
  have "addRows [r1] db = Inr ?db1" using s1 by simp
  moreover have "addRows [r1, r2] db = Inr ?db2" using s1 s2 by simp
  moreover have "columns ?t1 = pre @ (?cn, importedColumn r1) # post" using c1 p(2) by simp
  moreover have "columns ?t2 = pre @ (?cn, importedColumn r2) # post"
    unfolding c2 c1 using p(3) by simp
  moreover have "getColumn ?t2 ?cn = Some (importedColumn r2)"
    unfolding getColumn_def c2 by (rule Map_get_set)
  moreover have "length (getColumns ?t2) = length (getColumns ?t1)"
    unfolding getColumns_def Map_values_def c2 c1 by (simp add: length_Map_set_again)
  ultimately have "\<exists>db1 db2 t1 t2 pre post.
          addRows [r1] db = Inr db1 \<and> addRows [r1, r2] db = Inr db2 \<and>
          Map_get (tables db1) ?tn = Some t1 \<and>
          Map_get (tables db2) ?tn = Some t2 \<and>
          columns t1 = pre @ (?cn, importedColumn r1) # post \<and>
          columns t2 = pre @ (?cn, importedColumn r2) # post \<and>
          ?cn \<notin> fst ` set pre \<and>
          getColumn t2 ?cn = Some (importedColumn r2) \<and>
          length (getColumns t2) = length (getColumns t1) \<and>
          map fst (tables db2) = map fst (tables db1)"
    using g1 g2 p(1) k by blast
  with direct show ?thesis by blast
qed

theorem last_write_wins_witness:
  "assertColumnMetadataRaw (Obj exampleRow) = Inr () \<and>
   assertColumnMetadataRaw (Obj exampleRow2) = Inr () \<and>
   getProp exampleRow ''TABLE_NAME'' = getProp exampleRow2 ''TABLE_NAME'' \<and>
   getProp exampleRow ''COLUMN_NAME'' = getProp exampleRow2 ''COLUMN_NAME'' \<and>
   importedColumn exampleRow \<noteq> importedColumn exampleRow2 \<and>
   (\<exists>db1 db2 t1 t2 pre post.
      addRows [exampleRow] (new_MySQLDatabase (Str ''shop'')) = Inr db1 \<and>
      addRows [exampleRow, exampleRow2] (new_MySQLDatabase (Str ''shop'')) = Inr db2 \<and>
      Map_get (tables db1) (getProp exampleRow ''TABLE_NAME'') = Some t1 \<and>
      Map_get (tables db2) (getProp exampleRow ''TABLE_NAME'') = Some t2 \<and>
      columns t1 = pre @ (getProp exampleRow ''COLUMN_NAME'', importedColumn exampleRow) # post \<and>
      columns t2 = pre @ (getProp exampleRow ''COLUMN_NAME'', importedColumn exampleRow2) # post \<and>
      getProp exampleRow ''COLUMN_NAME'' \<notin> fst ` set pre \<and>
      getColumn t2 (getProp exampleRow ''COLUMN_NAME'') = Some (importedColumn exampleRow2) \<and>
      length (getColumns t2) = length (getColumns t1) \<and>
      map fst (tables db2) = map fst (tables db1)) \<and>
   length (getColumns (addColumn (addColumn (emptyTable (Str ''users'')) (importedColumn exampleRow))
                         (importedColumn exampleRow2))) =
     length (getColumns (addColumn (emptyTable (Str ''users'')) (importedColumn exampleRow)))"
proof -
  have n: "getProp exampleRow ''TABLE_NAME'' = getProp exampleRow2 ''TABLE_NAME''"
    "getProp exampleRow ''COLUMN_NAME'' = getProp exampleRow2 ''COLUMN_NAME''"
    "importedColumn exampleRow \<noteq> importedColumn exampleRow2"
    "columnName (importedColumn exampleRow) = columnName (importedColumn exampleRow2)"
    by code_simp+
  from last_write_wins [OF exampleRow_valid exampleRow2_valid n(1) n(2),
      of "new_MySQLDatabase (Str ''shop'')"]
  show ?thesis using exampleRow_valid exampleRow2_valid n by blast
qed

section \<open>Claims about the renderers\<close>




text \<open>
  C7 (as amended). For the empty list of rows the object-literal renderer and the
  typed-record renderer return the empty string, and the JSON renderer writes the text
  \<^verbatim>\<open>[]\<close>, the JSON of the empty array.
\<close>

theorem empty_rows_outputs:
  "convertColumnMetadataToJsCode [] = Inr [] \<and>
   convertColumnMetadataToJsClassCode [] = Inr [] \<and>
   render_button_click True table_names [] = Some ''[]''"
  by (simp add: convertColumnMetadataToJsCode_def convertColumnMetadataToJsClassCode_def
      render_button_click_def selectedRows_def JSON_stringify_def SerializeJSONArray_def)

text \<open>C7 as stated fails: for no rows the JSON renderer writes two characters, not the
  empty string.\<close>

theorem json_renderer_empty_counterexample:
  "render_button_click True [] [] = Some ''[]'' \<and> render_button_click True [] [] \<noteq> Some []"
  by code_simp

end
